theory Spec2Isabelle
  imports Main "HOL-Library.Finite_Map" "HOL-Library.Char_ord" "HOL-Library.List_Lexorder"
begin

section \<open>Errors and results\<close>

text \<open>
  Every exception class the sources throw is a constructor; the argument is the message.
  The detail objects attached to the exceptions are not modelled. A computation that can
  throw returns \<open>error + 'a\<close>, with \<open>Inl\<close> for the exception.
\<close>

datatype error =
    ConfigurationError string
  | PluginError string
  | RuntimeError string
  | TestError string
  | TypeError string

text \<open>\<open>Array.prototype.join\<close> on strings.\<close>

fun join_with :: "string \<Rightarrow> string list \<Rightarrow> string" where
  "join_with sep [] = []"
| "join_with sep [x] = x"
| "join_with sep (x # y # ys) = x @ sep @ join_with sep (y # ys)"

text \<open>A name between single quotes, as the messages of the sources show it.\<close>

definition quoted :: "string \<Rightarrow> string" where
  "quoted s = CHR 0x27 # s @ [CHR 0x27]"

text \<open>\<open>a || ""\<close> on an optional string: undefined and the empty string both give \<open>""\<close>.\<close>

definition or_empty :: "string option \<Rightarrow> string" where
  "or_empty s = (case s of None \<Rightarrow> [] | Some t \<Rightarrow> t)"

definition newline :: char where
  "newline = CHR 0x0A"

section \<open>Module versions and the build-version file\<close>

record ModuleVersion =
  versionString :: string
  dependencyVersions :: "(string, string) fmap"
  files :: "string list"

text \<open>The content of a file is the JSON document it holds.\<close>

datatype json =
    JNull
  | JString string
  | JArray "json list"
  | JObject "(string \<times> json) list"








text \<open>
  Modelled from the spec: \<open>GARDEN_BUILD_VERSION_FILENAME\<close> of \<open>constants\<close>, which is not
  among the sources; the cache directory holds
  \<open>build-metadata/<module>/garden-build-version\<close>.
\<close>

definition GARDEN_BUILD_VERSION_FILENAME :: string where
  "GARDEN_BUILD_VERSION_FILENAME = ''garden-build-version''"

text \<open>\<open>path.join\<close> of two segments, without its normalisation of the result.\<close>

definition join :: "string \<Rightarrow> string \<Rightarrow> string" where
  "join a b = a @ ''/'' @ b"

section \<open>The exec plugin\<close>

subsection \<open>Configuration types\<close>

type_synonym env = "string \<rightharpoonup> string"

record ExecTestSpec =
  ts_name :: string
  ts_dependencies :: "string list"
  ts_timeout :: "nat option"
  ts_command :: "string list"
  ts_env :: env

record ExecTaskSpec =
  ks_name :: string
  ks_dependencies :: "string list"
  ks_timeout :: "nat option"
  ks_command :: "string list"
  ks_env :: env

record BuildCopySpec =
  source :: string
  target :: string

record BuildDependencyConfig =
  dep_name :: string
  dep_copy :: "BuildCopySpec list"

record ExecBuildSpec =
  bs_dependencies :: "BuildDependencyConfig list"
  bs_command :: "string list"

text \<open>\<open>local\<close> is optional in \<open>ExecModuleSpec\<close>: \<open>None\<close> is \<open>undefined\<close>.\<close>

record ExecModuleSpec =
  spec_local :: "bool option"
  spec_build :: ExecBuildSpec
  spec_env :: env
  spec_tasks :: "ExecTaskSpec list"
  spec_tests :: "ExecTestSpec list"

record TaskConfig =
  task_name :: string
  task_dependencies :: "string list"
  task_timeout :: "nat option"
  task_spec :: ExecTaskSpec

record TestConfig =
  test_name :: string
  test_dependencies :: "string list"
  test_spec :: ExecTestSpec
  test_timeout :: "nat option"

record BaseBuildSpec =
  build_dependencies :: "BuildDependencyConfig list"

record ModuleConfig =
  mod_name :: string
  mod_path :: string
  mod_build :: BaseBuildSpec
  mod_spec :: ExecModuleSpec
  taskConfigs :: "TaskConfig list"
  testConfigs :: "TestConfig list"

record Module = ModuleConfig +
  buildPath :: string
  buildMetadataPath :: string
  version :: ModuleVersion

text \<open>JavaScript truthiness of an optional boolean.\<close>

definition truthy :: "bool option \<Rightarrow> bool" where
  "truthy b = (b = Some True)"

definition getCwd :: "'a Module_scheme \<Rightarrow> string" where
  "getCwd module = (if truthy (spec_local (mod_spec module)) then mod_path module else buildPath module)"

subsection \<open>configureExecModule\<close>

text \<open>
  \<open>d.copy\<close> is an array, and every array is truthy in JavaScript, the empty one too:
  \<open>!!d.copy\<close> is true for every dependency.
\<close>

definition array_truthy :: "'a list \<Rightarrow> bool" where
  "array_truthy xs = True"

definition local_copy_message :: "string \<Rightarrow> string \<Rightarrow> string" where
  "local_copy_message name deps =
     ''Invalid exec module configuration: Module '' @ name @ '' copies '' @ deps
     @ [newline, newline]
     @ ''A local exec module cannot have a build dependency with a copy spec.''"

text \<open>
  \<open>validateWithPath\<close> against \<open>execModuleSpecSchema\<close> is a parameter: it returns the
  validated spec or throws.
\<close>

definition configureExecModule ::
  "(ExecModuleSpec \<Rightarrow> error + ExecModuleSpec) \<Rightarrow> ModuleConfig \<Rightarrow> error + ModuleConfig" where
  "configureExecModule validateWithPath moduleConfig =
     (let buildDeps = build_dependencies (mod_build moduleConfig) in
      if truthy (spec_local (mod_spec moduleConfig)) \<and> list_ex (\<lambda>d. length (dep_copy d) > 0) buildDeps
      then
        (let buildDependenciesWithCopySpec =
               join_with '', '' (map dep_name (filter (\<lambda>d. array_truthy (dep_copy d)) buildDeps))
         in Inl (ConfigurationError
                   (local_copy_message (mod_name moduleConfig) buildDependenciesWithCopySpec)))
      else
        (case validateWithPath (mod_spec moduleConfig) of
           Inl e \<Rightarrow> Inl e
         | Inr spec \<Rightarrow>
             Inr (moduleConfig
               \<lparr> mod_spec := spec,
                 taskConfigs :=
                   map (\<lambda>t. \<lparr> task_name = ks_name t, task_dependencies = ks_dependencies t,
                               task_timeout = ks_timeout t, task_spec = t \<rparr>) (spec_tasks spec),
                 testConfigs :=
                   map (\<lambda>t. \<lparr> test_name = ts_name t, test_dependencies = ts_dependencies t,
                               test_spec = t, test_timeout = ts_timeout t \<rparr>) (spec_tests spec) \<rparr>)))"

subsection \<open>Spawning a command\<close>

record SpawnOpts =
  so_cwd :: string
  so_env :: env
  so_ignoreError :: bool

record SpawnResult =
  sr_code :: int
  sr_stdout :: "string option"
  sr_stderr :: "string option"

text \<open>
  The operating system is a parameter: \<open>run cmd args opts\<close> is what executing the command
  gives, an error when the process cannot be started, its exit code and output otherwise.
  \<open>cmd\<close> is \<open>None\<close> when the command array is empty (\<open>const [cmd, ...args] = command\<close>).
\<close>

type_synonym runner = "string option \<Rightarrow> string list \<Rightarrow> SpawnOpts \<Rightarrow> error + SpawnResult"

text \<open>
  Modelled from the spec: \<open>spawn\<close> of \<open>util/util\<close>, which is not among the sources. The
  error taxonomy has "subprocess nonzero exit outside ignore-error" as a Runtime error, and
  \<open>runExecTask\<close> says "the spawn call throws on error".
\<close>

definition spawn :: "runner \<Rightarrow> string option \<Rightarrow> string list \<Rightarrow> SpawnOpts \<Rightarrow> error + SpawnResult" where
  "spawn run cmd args opts =
     (case run cmd args opts of
        Inl e \<Rightarrow> Inl e
      | Inr r \<Rightarrow>
          if sr_code r = 0 \<or> so_ignoreError opts then Inr r
          else Inl (RuntimeError (''Command failed: '' @ or_empty cmd)))"

definition head_opt :: "'a list \<Rightarrow> 'a option" where
  "head_opt xs = (case xs of [] \<Rightarrow> None | x # _ \<Rightarrow> Some x)"

definition rest :: "'a list \<Rightarrow> 'a list" where
  "rest xs = (case xs of [] \<Rightarrow> [] | _ # ys \<Rightarrow> ys)"

subsection \<open>getExecModuleBuildStatus and buildExecModule\<close>

record BuildStatus =
  bst_ready :: bool

text \<open>
  \<open>readFile\<close> stands for \<open>readModuleVersionFile\<close>: any function from a path to a version,
  \<open>null\<close> or an exception.
\<close>

definition getExecModuleBuildStatus ::
  "(string \<Rightarrow> error + ModuleVersion option) \<Rightarrow> 'a Module_scheme \<Rightarrow> error + BuildStatus" where
  "getExecModuleBuildStatus readFile module =
     (let buildVersionFilePath = join (buildMetadataPath module) GARDEN_BUILD_VERSION_FILENAME;
          builtVersion = (case readFile buildVersionFilePath of Inl _ \<Rightarrow> None | Inr v \<Rightarrow> v)
      in case builtVersion of
           Some bv \<Rightarrow>
             if versionString bv = versionString (version module)
             then Inr \<lparr> bst_ready = True \<rparr> else Inr \<lparr> bst_ready = False \<rparr>
         | None \<Rightarrow> Inr \<lparr> bst_ready = False \<rparr>)"



subsection \<open>testExecModule and runExecTask\<close>

text \<open>The timestamps \<open>startedAt\<close> and \<open>completedAt\<close> of the results are not modelled.\<close>

record TestResult =
  tr_moduleName :: string
  tr_command :: "string list"
  tr_testName :: string
  tr_version :: string
  tr_success :: bool
  tr_log :: string

definition testExecModule :: "runner \<Rightarrow> env \<Rightarrow> 'a Module_scheme \<Rightarrow> TestConfig \<Rightarrow> error + TestResult" where
  "testExecModule run process_env module testConfig =
     (let command = ts_command (test_spec testConfig) in
      case spawn run (head_opt command) (rest command)
             \<lparr> so_cwd = getCwd module,
               so_env = process_env ++ spec_env (mod_spec module) ++ ts_env (test_spec testConfig),
               so_ignoreError = True \<rparr> of
        Inl e \<Rightarrow> Inl e
      | Inr result \<Rightarrow>
          Inr \<lparr> tr_moduleName = mod_name module,
                tr_command = command,
                tr_testName = test_name testConfig,
                tr_version = versionString (version module),
                tr_success = (sr_code result = 0),
                tr_log = or_empty (sr_stdout result) @ or_empty (sr_stderr result) \<rparr>)"

record RunTaskResult =
  rt_moduleName :: string
  rt_taskName :: string
  rt_command :: "string list"
  rt_version :: string
  rt_success :: bool
  rt_log :: string
  rt_outputs_log :: string

text \<open>A task carries its module (\<open>task.module\<close>).\<close>

record Task =
  tk_name :: string
  tk_spec :: ExecTaskSpec
  tk_module :: Module

definition runExecTask :: "runner \<Rightarrow> env \<Rightarrow> Task \<Rightarrow> error + RunTaskResult" where
  "runExecTask run process_env task =
     (let module = tk_module task;
          command = ks_command (tk_spec task) in
      case spawn run (head_opt command) (rest command)
             \<lparr> so_cwd = getCwd module,
               so_env = process_env ++ spec_env (mod_spec module) ++ ks_env (tk_spec task),
               so_ignoreError = False \<rparr> of
        Inl e \<Rightarrow> Inl e
      | Inr result \<Rightarrow>
          (let output = or_empty (sr_stdout result) @ or_empty (sr_stderr result) in
           Inr \<lparr> rt_moduleName = mod_name module,
                 rt_taskName = tk_name task,
                 rt_command = command,
                 rt_version = versionString (version module),
                 rt_success = True,
                 rt_log = output,
                 rt_outputs_log = output \<rparr>))"

section \<open>Test tasks\<close>

text \<open>
  The calls a task makes to plugin handlers through the action helper are recorded in a
  trace, in the order they are made: a function that calls handlers returns its result
  together with the calls it made. Log entries are not modelled.
\<close>

datatype action_call =
    GetTestResult string string
  | TestModule string string
  | ConfigureProvider string
  | GetEnvironmentStatus string
  | PrepareEnvironment string bool

text \<open>
  The collaborators of a test task. \<open>'ctx\<close> is the runtime context, \<open>'deps\<close> the
  dependency relations the graph returns. All of them can throw.
\<close>

record 'ctx Garden =
  resolveVersion :: "string \<Rightarrow> Module list \<Rightarrow> error + ModuleVersion"
  actions_getTestResult :: "Module \<Rightarrow> string \<Rightarrow> ModuleVersion \<Rightarrow> error + TestResult option"
  actions_testModule :: "Module \<Rightarrow> 'ctx \<Rightarrow> TestConfig \<Rightarrow> ModuleVersion \<Rightarrow> error + TestResult"

record 'deps ConfigGraph =
  graph_getDependencies :: "string \<Rightarrow> string \<Rightarrow> bool \<Rightarrow> error + 'deps"
  resolveDependencyModules :: "BuildDependencyConfig list \<Rightarrow> string list \<Rightarrow> error + Module list"

record TestTask =
  tt_module :: Module
  tt_testConfig :: TestConfig
  tt_force :: bool
  tt_forceBuild :: bool
  tt_version :: ModuleVersion

definition getTestVersion ::
  "('ctx, 'a) Garden_scheme \<Rightarrow> ('deps, 'b) ConfigGraph_scheme \<Rightarrow> Module \<Rightarrow> TestConfig
   \<Rightarrow> error + ModuleVersion" where
  "getTestVersion garden graph module testConfig =
     (case resolveDependencyModules graph (build_dependencies (mod_build module))
             (test_dependencies testConfig) of
        Inl e \<Rightarrow> Inl e
      | Inr resolved \<Rightarrow>
          (let moduleDeps = filter (\<lambda>m. mod_name m \<noteq> mod_name module) resolved
           in resolveVersion garden (mod_name module) moduleDeps))"


definition TestTask_getTestResult ::
  "('ctx, 'a) Garden_scheme \<Rightarrow> TestTask \<Rightarrow> (error + TestResult option) \<times> action_call list" where
  "TestTask_getTestResult garden task =
     (if tt_force task then (Inr None, [])
      else (actions_getTestResult garden (tt_module task) (test_name (tt_testConfig task))
              (tt_version task),
            [GetTestResult (mod_name (tt_module task)) (test_name (tt_testConfig task))]))"

text \<open>\<open>testResult && testResult.success\<close>: the stored result when it is a passed one.\<close>

definition passed :: "TestResult option \<Rightarrow> TestResult option" where
  "passed testResult =
     (case testResult of None \<Rightarrow> None | Some r \<Rightarrow> if tr_success r then Some r else None)"

text \<open>
  \<open>prepareRuntimeContext\<close> is a parameter; it is given the dependency results themselves,
  of which the source passes the two projections \<open>getServiceStatuses\<close> and
  \<open>getRunTaskResults\<close>.
\<close>

definition TestTask_process ::
  "('ctx, 'a) Garden_scheme \<Rightarrow> ('deps, 'b) ConfigGraph_scheme
   \<Rightarrow> (Module \<Rightarrow> 'deps \<Rightarrow> 'dr \<Rightarrow> error + 'ctx)
   \<Rightarrow> TestTask \<Rightarrow> 'dr \<Rightarrow> (error + TestResult) \<times> action_call list" where
  "TestTask_process garden graph prepareRuntimeContext task dependencyResults =
     (case TestTask_getTestResult garden task of
        (Inl e, calls) \<Rightarrow> (Inl e, calls)
      | (Inr testResult, calls) \<Rightarrow>
          (case passed testResult of
             Some r \<Rightarrow> (Inr r, calls)
           | None \<Rightarrow>
               (case graph_getDependencies graph ''test'' (test_name (tt_testConfig task)) False of
                  Inl e \<Rightarrow> (Inl e, calls)
                | Inr dependencies \<Rightarrow>
                    (case prepareRuntimeContext (tt_module task) dependencies dependencyResults of
                       Inl e \<Rightarrow> (Inl e, calls)
                     | Inr runtimeContext \<Rightarrow>
                         (let calls' = calls @
                                [TestModule (mod_name (tt_module task)) (test_name (tt_testConfig task))]
                          in case actions_testModule garden (tt_module task) runtimeContext
                                    (tt_testConfig task) (tt_version task) of
                               Inl err \<Rightarrow> (Inl err, calls')
                             | Inr result \<Rightarrow>
                                 if tr_success result then (Inr result, calls')
                                 else (Inl (TestError (tr_log result)), calls'))))))"






section \<open>Resolving providers\<close>

subsection \<open>Providers and plugins\<close>

text \<open>
  A provider configuration has a name, an optional path and further keys. \<open>omit(config, "path")\<close>
  clears the path.
\<close>

record ProviderConfig =
  pc_name :: string
  pc_path :: "string option"
  pc_fields :: "(string \<times> string) list"

definition omit_path :: "ProviderConfig \<Rightarrow> ProviderConfig" where
  "omit_path config = config \<lparr> pc_path := None \<rparr>"

record EnvironmentStatus =
  ready :: bool
  outputs :: "(string \<times> string) list"

text \<open>
  Modelled from the spec: \<open>Provider\<close> and \<open>providerFromConfig\<close> of \<open>config/provider\<close>,
  which is not among the sources: "\<open>{ name, config, dependencies: Provider[], moduleConfigs, status }\<close>".
  A dependency is \<open>None\<close> where the task result it comes from is \<open>null\<close>.
\<close>

datatype Provider =
  Provider (prov_name: string) (prov_config: ProviderConfig)
    (prov_dependencies: "Provider option list") (prov_moduleConfigs: "ModuleConfig list")
    (prov_status: EnvironmentStatus)

definition providerFromConfig ::
  "ProviderConfig \<Rightarrow> Provider option list \<Rightarrow> ModuleConfig list \<Rightarrow> EnvironmentStatus \<Rightarrow> Provider" where
  "providerFromConfig config dependencies moduleConfigs status =
     Provider (pc_name config) config dependencies moduleConfigs status"

record TaskResult =
  tres_output :: Provider

type_synonym TaskResults = "(string \<times> TaskResult option) list"

text \<open>
  A Joi schema is what validating against it does: the validated value, which may differ
  from the input (defaults, conversions), or the description of the violation.
\<close>

type_synonym schema = "ProviderConfig \<Rightarrow> string + ProviderConfig"

record ConfigureProviderResult =
  cpr_config :: ProviderConfig
  cpr_moduleConfigs :: "ModuleConfig list option"

record PrepareEnvironmentResult =
  per_status :: EnvironmentStatus

text \<open>
  \<open>plugin_dependencies\<close> and the handler are optional in the source
  (\<open>plugin.dependencies || []\<close>, \<open>(plugin.handlers || {}).configureProvider\<close>).
\<close>

record GardenPlugin =
  plugin_name :: string
  plugin_base :: "string option"
  plugin_dependencies :: "string list option"
  configSchema :: "schema option"
  configureProvider :: "(ProviderConfig \<Rightarrow> Provider option list \<Rightarrow> error + ConfigureProviderResult) option"

type_synonym PluginMap = "string \<rightharpoonup> GardenPlugin"

text \<open>lodash \<open>keyBy(plugins, "name")\<close>: a later plugin of the same name replaces an earlier one.\<close>

definition keyBy_name :: "GardenPlugin list \<Rightarrow> PluginMap" where
  "keyBy_name plugins = fold (\<lambda>p m. m(plugin_name p \<mapsto> p)) plugins Map.empty"

subsection \<open>Base chains\<close>

text \<open>
  \<open>!plugin.base\<close> holds when the plugin has no base and when its base is the empty
  string.
\<close>

definition has_base :: "GardenPlugin \<Rightarrow> string option" where
  "has_base plugin =
     (case plugin_base plugin of None \<Rightarrow> None | Some b \<Rightarrow> if b = [] then None else Some b)"

text \<open>
  \<open>getPluginBases\<close> recurses along the \<open>base\<close> names; on a cyclic chain it does not
  return, which is the value \<open>None\<close>.
\<close>

partial_function (option) getPluginBases ::
  "GardenPlugin \<Rightarrow> PluginMap \<Rightarrow> (error + GardenPlugin list) option" where
  "getPluginBases plugin loadedPlugins =
     (case has_base plugin of
        None \<Rightarrow> Some (Inr [])
      | Some b \<Rightarrow>
          (case loadedPlugins b of
             None \<Rightarrow>
               Some (Inl (RuntimeError (''Unable to find base plugin '' @ quoted b @ '' for plugin ''
                                          @ quoted (plugin_name plugin))))
           | Some base \<Rightarrow>
               Option.bind (getPluginBases base loadedPlugins)
                 (\<lambda>r. case r of Inl e \<Rightarrow> Some (Inl e) | Inr bases \<Rightarrow> Some (Inr (base # bases)))))"

text \<open>Reading \<open>plugin.base\<close> of \<open>loadedPlugins[name]\<close> throws when no plugin has that name.\<close>

definition getPluginBaseNames :: "string \<Rightarrow> PluginMap \<Rightarrow> (error + string list) option" where
  "getPluginBaseNames name loadedPlugins =
     (case loadedPlugins name of
        None \<Rightarrow> Some (Inl (TypeError ''Cannot read property base of undefined''))
      | Some plugin \<Rightarrow>
          Option.bind (getPluginBases plugin loadedPlugins)
            (\<lambda>r. case r of Inl e \<Rightarrow> Some (Inl e) | Inr bases \<Rightarrow> Some (Inr (map plugin_name bases))))"

subsection \<open>The garden of a resolve-provider task\<close>

text \<open>
  What a task reads from \<open>this.garden\<close>. The handlers the action helper finds for a
  plugin name are given per action type; \<open>defaultEnvironmentStatus\<close> and
  \<open>resolveTemplateStrings\<close> (neither is among the sources) are parameters as well.
\<close>

record ProviderGarden =
  garden_projectRoot :: string
  garden_getRawProviderConfigs :: "ProviderConfig list"
  garden_getPlugins :: "GardenPlugin list"
  garden_resolveTemplateStrings :: "ProviderConfig \<Rightarrow> Provider option list \<Rightarrow> error + ProviderConfig"
  garden_environmentStatusHandlers :: "string \<Rightarrow> (Provider \<Rightarrow> error + EnvironmentStatus) option"
  garden_prepareEnvironmentHandlers ::
    "string \<Rightarrow> (Provider \<Rightarrow> bool \<Rightarrow> EnvironmentStatus \<Rightarrow> error + PrepareEnvironmentResult) option"
  garden_defaultEnvironmentStatus :: EnvironmentStatus

text \<open>
  \<open>rp_plugin\<close> is \<open>None\<close> when the task was built with \<open>plugins[depName]\<close> and no plugin
  has that name.
\<close>

record ResolveProviderTask =
  rp_config :: ProviderConfig
  rp_plugin :: "GardenPlugin option"
  rp_forceInit :: bool

text \<open>
  Modelled from the spec: \<open>getActionHandler\<close> of the action helper, which is not among
  the sources. "If nothing is found and the caller provided a \<open>defaultHandler\<close>, use it."
\<close>

definition getActionHandler :: "'h option \<Rightarrow> 'h \<Rightarrow> 'h" where
  "getActionHandler registered defaultHandler =
     (case registered of Some h \<Rightarrow> h | None \<Rightarrow> defaultHandler)"

subsection \<open>getDependencies\<close>

text \<open>
  The filter of \<open>getDependencies\<close>: \<open>c.name === depName || getPluginBaseNames(c.name,
  plugins).includes(depName)\<close>, whose second operand can throw or not return.
\<close>

fun matchConfigs :: "PluginMap \<Rightarrow> string \<Rightarrow> ProviderConfig list \<Rightarrow> (error + ProviderConfig list) option" where
  "matchConfigs plugins depName [] = Some (Inr [])"
| "matchConfigs plugins depName (c # cs) =
     (case (if pc_name c = depName then Some (Inr True)
            else Option.bind (getPluginBaseNames (pc_name c) plugins)
                   (\<lambda>r. case r of Inl e \<Rightarrow> Some (Inl e)
                                 | Inr names \<Rightarrow> Some (Inr (depName \<in> set names)))) of
        None \<Rightarrow> None
      | Some (Inl e) \<Rightarrow> Some (Inl e)
      | Some (Inr keep) \<Rightarrow>
          (case matchConfigs plugins depName cs of
             None \<Rightarrow> None
           | Some (Inl e) \<Rightarrow> Some (Inl e)
           | Some (Inr matched) \<Rightarrow> Some (Inr (if keep then c # matched else matched))))"

definition missing_dependency_message :: "string \<Rightarrow> string \<Rightarrow> string" where
  "missing_dependency_message depName providerName =
     ''Missing provider dependency '' @ quoted depName @ '' in configuration for provider ''
     @ quoted providerName @ ''. Are you missing a provider configuration?''"

text \<open>The function mapped over \<open>depNames\<close>.\<close>

definition dependencyTasks ::
  "ProviderGarden \<Rightarrow> ResolveProviderTask \<Rightarrow> string \<Rightarrow> (error + ResolveProviderTask list) option" where
  "dependencyTasks garden task depName =
     (let rawProviderConfigs = garden_getRawProviderConfigs garden;
          plugins = keyBy_name (garden_getPlugins garden)
      in case matchConfigs plugins depName rawProviderConfigs of
           None \<Rightarrow> None
         | Some (Inl e) \<Rightarrow> Some (Inl e)
         | Some (Inr matched) \<Rightarrow>
             if length matched = 0
             then Some (Inl (ConfigurationError
                               (missing_dependency_message depName (pc_name (rp_config task)))))
             else Some (Inr (map (\<lambda>config. \<lparr> rp_config = config, rp_plugin = plugins depName,
                                              rp_forceInit = rp_forceInit task \<rparr>) matched)))"

text \<open>
  \<open>Bluebird.map\<close> over the dependency names, taken in the order of the array: the first
  name that fails decides the error.
\<close>

fun map_names :: "('a \<Rightarrow> (error + 'b) option) \<Rightarrow> 'a list \<Rightarrow> (error + 'b list) option" where
  "map_names f [] = Some (Inr [])"
| "map_names f (x # xs) =
     (case f x of
        None \<Rightarrow> None
      | Some (Inl e) \<Rightarrow> Some (Inl e)
      | Some (Inr y) \<Rightarrow>
          (case map_names f xs of
             None \<Rightarrow> None
           | Some (Inl e) \<Rightarrow> Some (Inl e)
           | Some (Inr ys) \<Rightarrow> Some (Inr (y # ys))))"

text \<open>
  \<open>getAllProviderDependencyNames\<close> (of \<open>config/provider\<close>, not among the sources) is a
  parameter.
\<close>

definition getDependencies ::
  "(GardenPlugin option \<Rightarrow> ProviderConfig \<Rightarrow> string list) \<Rightarrow> ProviderGarden \<Rightarrow> ResolveProviderTask
   \<Rightarrow> (error + ResolveProviderTask list) option" where
  "getDependencies getAllProviderDependencyNames garden task =
     (let depNames = getAllProviderDependencyNames (rp_plugin task) (rp_config task)
      in case map_names (dependencyTasks garden task) depNames of
           None \<Rightarrow> None
         | Some (Inl e) \<Rightarrow> Some (Inl e)
         | Some (Inr tasks) \<Rightarrow> Some (Inr (concat tasks)))"

subsection \<open>Validation\<close>

text \<open>
  Modelled from the spec: \<open>validateWithPath\<close> of \<open>config/common\<close>, which is not among the
  sources. It validates the value against the schema and throws the given error class,
  here always \<open>ConfigurationError\<close>, naming the kind of configuration.
\<close>

definition validateWithPath :: "schema \<Rightarrow> ProviderConfig \<Rightarrow> string \<Rightarrow> error + ProviderConfig" where
  "validateWithPath sch config configType =
     (case sch config of
        Inl msg \<Rightarrow> Inl (ConfigurationError (''Error validating '' @ configType @ '': '' @ msg))
      | Inr validated \<Rightarrow> Inr validated)"

text \<open>\<open>joi.object()\<close>, the schema of a plugin that declares none, accepts every object.\<close>

definition joi_object :: schema where
  "joi_object = Inr"

definition validateConfig :: "GardenPlugin \<Rightarrow> ProviderConfig \<Rightarrow> error + ProviderConfig" where
  "validateConfig plugin config =
     validateWithPath (case configSchema plugin of Some s \<Rightarrow> s | None \<Rightarrow> joi_object)
       (omit_path config) ''provider configuration''"

text \<open>The loop over the bases.\<close>

fun validateBases :: "GardenPlugin list \<Rightarrow> ProviderConfig \<Rightarrow> error + ProviderConfig" where
  "validateBases [] resolvedConfig = Inr resolvedConfig"
| "validateBases (base # bases) resolvedConfig =
     (case configSchema base of
        None \<Rightarrow> validateBases bases resolvedConfig
      | Some s \<Rightarrow>
          (case validateWithPath s (omit_path resolvedConfig)
                  (''provider configuration (base schema from '' @ quoted (plugin_name base) @ '' plugin)'') of
             Inl e \<Rightarrow> Inl e
           | Inr validated \<Rightarrow> validateBases bases validated))"

subsection \<open>ensurePrepared\<close>

definition not_ready_message :: "string \<Rightarrow> string" where
  "not_ready_message pluginName =
     ''Provider '' @ pluginName
     @ '' reports status as not ready and could not prepare the configured environment.''"

definition ensurePrepared ::
  "ProviderGarden \<Rightarrow> ResolveProviderTask \<Rightarrow> Provider
   \<Rightarrow> (error + EnvironmentStatus) \<times> action_call list" where
  "ensurePrepared garden task tmpProvider =
     (let pluginName = prov_name tmpProvider;
          handler = getActionHandler (garden_environmentStatusHandlers garden pluginName)
                      (\<lambda>_. Inr (garden_defaultEnvironmentStatus garden))
      in case handler tmpProvider of
           Inl e \<Rightarrow> (Inl e, [GetEnvironmentStatus pluginName])
         | Inr status \<Rightarrow>
             (let prepared =
                    (if rp_forceInit task \<or> \<not> ready status then
                       (let prepareHandler =
                              getActionHandler (garden_prepareEnvironmentHandlers garden pluginName)
                                (\<lambda>_ _ _. Inr \<lparr> per_status = status \<rparr>)
                        in case prepareHandler tmpProvider (rp_forceInit task) status of
                             Inl e \<Rightarrow> (Inl e, [PrepareEnvironment pluginName (rp_forceInit task)])
                           | Inr result \<Rightarrow>
                               (Inr (per_status result),
                                [PrepareEnvironment pluginName (rp_forceInit task)]))
                     else (Inr status, []))
              in case prepared of
                   (Inl e, calls) \<Rightarrow> (Inl e, GetEnvironmentStatus pluginName # calls)
                 | (Inr status', calls) \<Rightarrow>
                     if \<not> ready status'
                     then (Inl (PluginError (not_ready_message pluginName)),
                           GetEnvironmentStatus pluginName # calls)
                     else (Inr status', GetEnvironmentStatus pluginName # calls)))"

subsection \<open>process\<close>

text \<open>
  The call of the \<open>configureProvider\<close> handler, when the plugin has one, and the second
  validation against the plugin's own schema.
\<close>

definition configure ::
  "ProviderGarden \<Rightarrow> GardenPlugin \<Rightarrow> string \<Rightarrow> ProviderConfig \<Rightarrow> Provider option list
   \<Rightarrow> (error + ProviderConfig \<times> ModuleConfig list) \<times> action_call list" where
  "configure garden plugin providerName resolvedConfig resolvedProviders =
     (case configureProvider plugin of
        None \<Rightarrow> (Inr (resolvedConfig, []), [])
      | Some configureHandler \<Rightarrow>
          (case configureHandler resolvedConfig resolvedProviders of
             Inl e \<Rightarrow> (Inl e, [ConfigureProvider providerName])
           | Inr configureOutput \<Rightarrow>
               (case validateConfig plugin (cpr_config configureOutput) of
                  Inl e \<Rightarrow> (Inl e, [ConfigureProvider providerName])
                | Inr validated \<Rightarrow>
                    (Inr (validated \<lparr> pc_path := Some (garden_projectRoot garden) \<rparr>,
                          (case cpr_moduleConfigs configureOutput of
                             Some moduleConfigs \<Rightarrow> moduleConfigs
                           | None \<Rightarrow> [])),
                     [ConfigureProvider providerName]))))"

definition process ::
  "ProviderGarden \<Rightarrow> ResolveProviderTask \<Rightarrow> TaskResults
   \<Rightarrow> ((error + Provider) \<times> action_call list) option" where
  "process garden task dependencyResults =
     (let resolvedProviders = map (\<lambda>(key, result). map_option tres_output result) dependencyResults
      in case garden_resolveTemplateStrings garden (rp_config task) resolvedProviders of
           Inl e \<Rightarrow> Some (Inl e, [])
         | Inr resolved \<Rightarrow>
             (case rp_plugin task of
                None \<Rightarrow> Some (Inl (TypeError ''Cannot read property configSchema of undefined''), [])
              | Some plugin \<Rightarrow>
                  (case validateConfig plugin resolved of
                     Inl e \<Rightarrow> Some (Inl e, [])
                   | Inr validated \<Rightarrow>
                       (case configure garden plugin (pc_name resolved)
                               (validated \<lparr> pc_path := Some (garden_projectRoot garden) \<rparr>)
                               resolvedProviders of
                          (Inl e, calls) \<Rightarrow> Some (Inl e, calls)
                        | (Inr (resolvedConfig, moduleConfigs), calls) \<Rightarrow>
                            (case getPluginBases plugin (keyBy_name (garden_getPlugins garden)) of
                               None \<Rightarrow> None
                             | Some (Inl e) \<Rightarrow> Some (Inl e, calls)
                             | Some (Inr bases) \<Rightarrow>
                                 (case validateBases bases resolvedConfig of
                                    Inl e \<Rightarrow> Some (Inl e, calls)
                                  | Inr final \<Rightarrow>
                                      (let tmpProvider =
                                             providerFromConfig final resolvedProviders moduleConfigs
                                               (garden_defaultEnvironmentStatus garden)
                                       in case ensurePrepared garden task tmpProvider of
                                            (Inl e, calls') \<Rightarrow> Some (Inl e, calls @ calls')
                                          | (Inr status, calls') \<Rightarrow>
                                              Some (Inr (providerFromConfig final resolvedProviders
                                                           moduleConfigs status),
                                                    calls @ calls'))))))))"

section \<open>Notions of the specification\<close>

text \<open>
  The base chain of a plugin, as the specification speaks of it: the plugin named by its
  \<open>base\<close>, the plugin named by that one's \<open>base\<close>, and so on. The empty string names
  no base.
\<close>

inductive in_base_chain :: "PluginMap \<Rightarrow> GardenPlugin \<Rightarrow> GardenPlugin \<Rightarrow> bool"
  for loadedPlugins :: PluginMap where
  direct: "plugin_base p = Some b \<Longrightarrow> b \<noteq> [] \<Longrightarrow> loadedPlugins b = Some q
            \<Longrightarrow> in_base_chain loadedPlugins p q"
| further: "plugin_base p = Some b \<Longrightarrow> b \<noteq> [] \<Longrightarrow> loadedPlugins b = Some q
            \<Longrightarrow> in_base_chain loadedPlugins q r \<Longrightarrow> in_base_chain loadedPlugins p r"

code_pred in_base_chain .

text \<open>
  A configured provider matches a dependency name when its name is that name, or the base
  chain of its plugin contains a plugin of that name.
\<close>

definition matches :: "PluginMap \<Rightarrow> string \<Rightarrow> ProviderConfig \<Rightarrow> bool" where
  "matches plugins depName c =
     (pc_name c = depName
      \<or> (\<exists>p q. plugins (pc_name c) = Some p \<and> in_base_chain plugins p q \<and> plugin_name q = depName))"

text \<open>
  A configuration satisfies a schema when validating it, as \<open>process\<close> does without its
  path, succeeds.
\<close>

definition satisfies :: "schema \<Rightarrow> ProviderConfig \<Rightarrow> bool" where
  "satisfies sch config = (case sch (omit_path config) of Inl _ \<Rightarrow> False | Inr _ \<Rightarrow> True)"

text \<open>
  Validating against a list of schemas in order: each schema is given the output of the
  one before it, and the last output is the result.
\<close>

fun validated_in_order :: "schema list \<Rightarrow> ProviderConfig \<Rightarrow> ProviderConfig \<Rightarrow> bool" where
  "validated_in_order [] config final = (final = config)"
| "validated_in_order (sch # schemas) config final =
     (case sch (omit_path config) of
        Inl _ \<Rightarrow> False
      | Inr validated \<Rightarrow> validated_in_order schemas validated final)"

text \<open>The schema a plugin is validated against: its own, or \<open>joi.object()\<close>.\<close>

definition own_schema :: "GardenPlugin \<Rightarrow> schema" where
  "own_schema plugin = (case configSchema plugin of Some s \<Rightarrow> s | None \<Rightarrow> joi_object)"

text \<open>The schemas the bases declare, in the order of the chain.\<close>

definition base_schemas :: "GardenPlugin list \<Rightarrow> schema list" where
  "base_schemas bases = List.map_filter configSchema bases"

section \<open>Example inputs\<close>

text \<open>A small project in the style of the repository's test projects, used to instantiate the theorems.\<close>

definition example_version :: ModuleVersion where
  "example_version =
     \<lparr> versionString = ''v-1234'',
       dependencyVersions = fmap_of_list [(''module-b'', ''v-b''), (''module-a'', ''v-a'')],
       files = [''a.txt''] \<rparr>"

definition example_test_spec :: ExecTestSpec where
  "example_test_spec =
     \<lparr> ts_name = ''unit'', ts_dependencies = [], ts_timeout = None,
       ts_command = [''echo'', ''OK''], ts_env = Map.empty \<rparr>"

definition example_test :: TestConfig where
  "example_test =
     \<lparr> test_name = ''unit'', test_dependencies = [], test_spec = example_test_spec,
       test_timeout = None \<rparr>"

definition integration_test :: TestConfig where
  "integration_test =
     \<lparr> test_name = ''integration'', test_dependencies = [],
       test_spec = example_test_spec \<lparr> ts_name := ''integration'' \<rparr>, test_timeout = None \<rparr>"

definition example_task_spec :: ExecTaskSpec where
  "example_task_spec =
     \<lparr> ks_name = ''banana'', ks_dependencies = [], ks_timeout = None,
       ks_command = [''echo'', ''BANANA''], ks_env = Map.empty \<rparr>"

definition example_module :: Module where
  "example_module =
     \<lparr> mod_name = ''module-a'', mod_path = ''/project/module-a'',
       mod_build = \<lparr> build_dependencies = [] \<rparr>,
       mod_spec = \<lparr> spec_local = None,
                    spec_build = \<lparr> bs_dependencies = [], bs_command = [''echo'', ''A''] \<rparr>,
                    spec_env = Map.empty, spec_tasks = [example_task_spec],
                    spec_tests = [example_test_spec] \<rparr>,
       taskConfigs = [], testConfigs = [example_test, integration_test],
       buildPath = ''/project/.garden/build/module-a'',
       buildMetadataPath = ''/project/.garden/build-metadata/module-a'',
       version = example_version \<rparr>"

definition module_b :: Module where
  "module_b =
     example_module \<lparr> mod_name := ''module-b'', testConfigs := [],
       version := example_version \<lparr> versionString := ''v-b'' \<rparr> \<rparr>"

definition example_task :: Task where
  "example_task = \<lparr> tk_name = ''banana'', tk_spec = example_task_spec, tk_module = example_module \<rparr>"

text \<open>A command that exits with 0, one that exits with 1, and one that cannot be started.\<close>

definition run_enoent :: runner where
  "run_enoent cmd args opts = Inl (RuntimeError ''spawn ENOENT'')"

definition run_ok :: runner where
  "run_ok cmd args opts = Inr \<lparr> sr_code = 0, sr_stdout = Some ''A'', sr_stderr = None \<rparr>"

definition run_fail :: runner where
  "run_fail cmd args opts = Inr \<lparr> sr_code = 1, sr_stdout = Some ''out'', sr_stderr = Some ''err'' \<rparr>"

text \<open>
  A local module with two build dependencies, of which only \<open>module-a\<close> has a copy spec.
\<close>

definition local_module_config :: ModuleConfig where
  "local_module_config =
     \<lparr> mod_name = ''module-local'', mod_path = ''/project/module-local'',
       mod_build = \<lparr> build_dependencies =
         [\<lparr> dep_name = ''module-a'', dep_copy = [\<lparr> source = ''a.txt'', target = ''a.txt'' \<rparr>] \<rparr>,
          \<lparr> dep_name = ''module-b'', dep_copy = [] \<rparr>] \<rparr>,
       mod_spec = \<lparr> spec_local = Some True,
                    spec_build = \<lparr> bs_dependencies = [], bs_command = [] \<rparr>,
                    spec_env = Map.empty, spec_tasks = [], spec_tests = [] \<rparr>,
       taskConfigs = [], testConfigs = [] \<rparr>"

text \<open>
  A garden whose result cache holds a result for every test, passed or failed as \<open>ok\<close>
  says, whose \<open>testModule\<close> handler passes, and whose version resolver reports the
  versions of the modules it is given.
\<close>

definition stored_result :: "bool \<Rightarrow> TestResult" where
  "stored_result ok =
     \<lparr> tr_moduleName = ''module-a'', tr_command = [''echo'', ''OK''], tr_testName = ''unit'',
       tr_version = ''v-1234'', tr_success = ok, tr_log = ''stored'' \<rparr>"

definition fresh_result :: TestResult where
  "fresh_result = stored_result True \<lparr> tr_log := ''fresh'' \<rparr>"

definition example_garden :: "bool \<Rightarrow> unit Garden" where
  "example_garden ok =
     \<lparr> resolveVersion = (\<lambda>name deps.
         Inr \<lparr> versionString = ''v-test'',
               dependencyVersions =
                 fmap_of_list (map (\<lambda>m. (mod_name m, versionString (version m))) deps),
               files = [] \<rparr>),
       actions_getTestResult = (\<lambda>module testName testVersion. Inr (Some (stored_result ok))),
       actions_testModule = (\<lambda>module ctx testConfig testVersion. Inr fresh_result) \<rparr>"

definition example_graph :: "unit ConfigGraph" where
  "example_graph =
     \<lparr> graph_getDependencies = (\<lambda>kind name recursive. Inr ()),
       resolveDependencyModules = (\<lambda>buildDeps names. Inr [example_module, module_b]) \<rparr>"

definition ok_prepare :: "Module \<Rightarrow> unit \<Rightarrow> unit \<Rightarrow> error + unit" where
  "ok_prepare module deps results = Inr ()"

definition failing_prepare :: "Module \<Rightarrow> unit \<Rightarrow> unit \<Rightarrow> error + unit" where
  "failing_prepare module deps results = Inl (RuntimeError ''no runtime context'')"

text \<open>A garden with an empty result cache and a failing test, and a graph that throws.\<close>

definition failed_result :: TestResult where
  "failed_result = stored_result False \<lparr> tr_log := ''assertion failed'' \<rparr>"

definition empty_cache_garden :: "unit Garden" where
  "empty_cache_garden =
     example_garden True
       \<lparr> actions_getTestResult := (\<lambda>module testName testVersion. Inr None),
         actions_testModule := (\<lambda>module ctx testConfig testVersion. Inr failed_result) \<rparr>"

definition broken_cache_garden :: "unit Garden" where
  "broken_cache_garden =
     example_garden True
       \<lparr> actions_getTestResult :=
           (\<lambda>module testName testVersion. Inl (RuntimeError ''cache unavailable'')) \<rparr>"

definition failing_graph :: "unit ConfigGraph" where
  "failing_graph =
     example_graph \<lparr> graph_getDependencies := (\<lambda>kind name recursive. Inl (RuntimeError ''no such test'')) \<rparr>"

definition example_test_task :: "bool \<Rightarrow> TestTask" where
  "example_test_task force =
     \<lparr> tt_module = example_module, tt_testConfig = example_test, tt_force = force,
       tt_forceBuild = False, tt_version = example_version \<rparr>"

text \<open>
  The plugins of the repository's test "should match a dependency to a plugin base":
  \<open>test-a\<close> has the base \<open>base-a\<close>, \<open>test-b\<close> depends on \<open>base-a\<close>, and the project
  configures \<open>test-a\<close> and \<open>test-b\<close>.
\<close>

definition make_plugin :: "string \<Rightarrow> string option \<Rightarrow> string list option \<Rightarrow> schema option \<Rightarrow> GardenPlugin" where
  "make_plugin name base deps sch =
     \<lparr> plugin_name = name, plugin_base = base, plugin_dependencies = deps,
       configSchema = sch, configureProvider = None \<rparr>"

definition make_config :: "string \<Rightarrow> ProviderConfig" where
  "make_config name = \<lparr> pc_name = name, pc_path = None, pc_fields = [] \<rparr>"

definition base_a :: GardenPlugin where
  "base_a = make_plugin ''base-a'' None None None"

definition test_a :: GardenPlugin where
  "test_a = make_plugin ''test-a'' (Some ''base-a'') None None"

definition test_b :: GardenPlugin where
  "test_b = make_plugin ''test-b'' None (Some [''base-a'']) None"

definition ready_status :: EnvironmentStatus where
  "ready_status = \<lparr> ready = True, outputs = [(''foo'', ''bar'')] \<rparr>"

definition not_ready_status :: EnvironmentStatus where
  "not_ready_status = \<lparr> ready = False, outputs = [] \<rparr>"

text \<open>
  A chain of two bases: \<open>base-b\<close> has the base \<open>base-a\<close>, and \<open>deep_a\<close> is a plugin
  \<open>test-a\<close> with the base \<open>base-b\<close>.
\<close>

definition base_b :: GardenPlugin where
  "base_b = make_plugin ''base-b'' (Some ''base-a'') None None"

definition deep_a :: GardenPlugin where
  "deep_a = make_plugin ''test-a'' (Some ''base-b'') None None"

text \<open>
  \<open>test-a\<close> reports that it is not ready until \<open>prepareEnvironment\<close> has run;
  \<open>stuck\<close> reports that it is not ready and has no \<open>prepareEnvironment\<close> handler;
  the \<open>getEnvironmentStatus\<close> handler of \<open>broken\<close> throws; the other plugins have no
  handlers.
\<close>

definition provider_garden :: "GardenPlugin list \<Rightarrow> ProviderGarden" where
  "provider_garden plugins =
     \<lparr> garden_projectRoot = ''/project'',
       garden_getRawProviderConfigs = [make_config ''test-a'', make_config ''test-b''],
       garden_getPlugins = plugins,
       garden_resolveTemplateStrings = (\<lambda>config providers. Inr config),
       garden_environmentStatusHandlers =
         (\<lambda>name. if name = ''test-a'' \<or> name = ''stuck''
                  then Some (\<lambda>provider. Inr not_ready_status)
                  else if name = ''broken''
                  then Some (\<lambda>provider. Inl (RuntimeError ''status unavailable''))
                  else None),
       garden_prepareEnvironmentHandlers =
         (\<lambda>name. if name = ''test-a''
                  then Some (\<lambda>provider force status. Inr \<lparr> per_status = ready_status \<rparr>)
                  else None),
       garden_defaultEnvironmentStatus = \<lparr> ready = True, outputs = [] \<rparr> \<rparr>"

definition tmp_provider :: "string \<Rightarrow> Provider" where
  "tmp_provider name =
     providerFromConfig (make_config name) [] [] \<lparr> ready = True, outputs = [] \<rparr>"

definition resolve_task :: "GardenPlugin \<Rightarrow> ResolveProviderTask" where
  "resolve_task plugin =
     \<lparr> rp_config = make_config (plugin_name plugin), rp_plugin = Some plugin, rp_forceInit = False \<rparr>"

definition forced_task :: "GardenPlugin \<Rightarrow> ResolveProviderTask" where
  "forced_task plugin = resolve_task plugin \<lparr> rp_forceInit := True \<rparr>"

text \<open>The declared dependencies of the plugin, standing for \<open>getAllProviderDependencyNames\<close>.\<close>

definition declared_dependencies :: "GardenPlugin option \<Rightarrow> ProviderConfig \<Rightarrow> string list" where
  "declared_dependencies plugin config =
     (case plugin of
        None \<Rightarrow> []
      | Some p \<Rightarrow> (case plugin_dependencies p of None \<Rightarrow> [] | Some deps \<Rightarrow> deps))"

text \<open>
  Two schemas as Joi can express them: \<open>only_name\<close> allows no key but the name,
  \<open>default_foo\<close> fills in a default for the key \<open>foo\<close>.
\<close>

definition only_name :: schema where
  "only_name config =
     (if pc_fields config = [] then Inr config
      else Inl (''key .'' @ fst (hd (pc_fields config)) @ '' is not allowed''))"

definition default_foo :: schema where
  "default_foo config =
     (case map_of (pc_fields config) ''foo'' of
        Some v \<Rightarrow> Inr config
      | None \<Rightarrow> Inr (config \<lparr> pc_fields := pc_fields config @ [(''foo'', ''bar'')] \<rparr>))"

definition strict_child :: GardenPlugin where
  "strict_child = make_plugin ''test'' (Some ''base'') None (Some only_name)"

definition default_base :: GardenPlugin where
  "default_base = make_plugin ''base'' None None (Some default_foo)"

definition checked_base :: GardenPlugin where
  "checked_base = make_plugin ''base'' None None (Some only_name)"

text \<open>
  A plugin whose \<open>configureProvider\<close> handler adds a key to the configuration and
  supplies no module configurations, and whose base fills in the default for \<open>foo\<close>.
\<close>

definition add_handled ::
  "ProviderConfig \<Rightarrow> Provider option list \<Rightarrow> error + ConfigureProviderResult" where
  "add_handled config providers =
     Inr \<lparr> cpr_config = config \<lparr> pc_fields := pc_fields config @ [(''handled'', ''yes'')] \<rparr>,
           cpr_moduleConfigs = None \<rparr>"

definition configuring_child :: GardenPlugin where
  "configuring_child =
     make_plugin ''test'' (Some ''base'') None None \<lparr> configureProvider := Some add_handled \<rparr>"

section \<open>Verification: the exec plugin\<close>

subsection \<open>configureExecModule\<close>

text \<open>
  What \<open>configureExecModule\<close> does with a local module: it throws exactly when
  \<open>local\<close> is true and some build dependency has a non-empty copy list, and the message
  then lists every build dependency.
\<close>

lemma configureExecModule_local_copy:
  "truthy (spec_local (mod_spec m)) \<and> list_ex (\<lambda>d. length (dep_copy d) > 0) (build_dependencies (mod_build m))
   \<Longrightarrow> configureExecModule validate m
       = Inl (ConfigurationError
                (local_copy_message (mod_name m)
                   (join_with '', '' (map dep_name (build_dependencies (mod_build m))))))"
  by (simp add: configureExecModule_def array_truthy_def)

lemma configureExecModule_no_local_copy:
  "\<not> (truthy (spec_local (mod_spec m))
       \<and> list_ex (\<lambda>d. length (dep_copy d) > 0) (build_dependencies (mod_build m)))
   \<Longrightarrow> validate (mod_spec m) = Inr spec
   \<Longrightarrow> \<exists>configured. configureExecModule validate m = Inr configured \<and> mod_spec configured = spec"
  by (auto simp: configureExecModule_def)

text \<open>
  C5 (the code departs from the claim). A local module whose build dependency \<open>module-a\<close>
  has a copy spec and whose build dependency \<open>module-b\<close> has an empty copy list is
  rejected, as the claim says, but the message names both dependencies, \<open>module-a, module-b\<close>,
  where the dependencies with a non-empty copy list are \<open>module-a\<close> alone: the list of
  names is filtered with \<open>!!d.copy\<close>, which is true of the empty array as well, and not
  with \<open>d.copy.length > 0\<close> as the test before it.
\<close>

theorem configureExecModule_names_every_dependency:
  "configureExecModule validate local_module_config
     = Inl (ConfigurationError (local_copy_message ''module-local'' ''module-a, module-b''))
   \<and> map dep_name (filter (\<lambda>d. length (dep_copy d) > 0)
            (build_dependencies (mod_build local_module_config))) = [''module-a'']"
  by (simp add: configureExecModule_def local_module_config_def truthy_def array_truthy_def)

subsection \<open>The build-version file\<close>










subsection \<open>getExecModuleBuildStatus\<close>

text \<open>
  C6. \<open>getExecModuleBuildStatus\<close> never throws, whatever reading the build-version file
  does: it returns \<open>ready: true\<close> exactly when the read returns a version whose version
  string is the module's, and \<open>ready: false\<close> otherwise, also when the read throws or
  returns \<open>null\<close>.
\<close>

theorem getExecModuleBuildStatus_ready_iff:
  "getExecModuleBuildStatus readFile module =
     Inr \<lparr> bst_ready =
             (\<exists>v. readFile (join (buildMetadataPath module) GARDEN_BUILD_VERSION_FILENAME) = Inr (Some v)
                  \<and> versionString v = versionString (version module)) \<rparr>"
  by (auto simp: getExecModuleBuildStatus_def Let_def split: sum.splits option.splits)

subsection \<open>testExecModule and runExecTask\<close>

text \<open>
  C10. \<open>testExecModule\<close> spawns the test command with \<open>ignoreError\<close>. Whenever the command
  runs and exits, with whatever exit code, it returns a result, in which \<open>success\<close> says
  whether the exit code is 0 and the log is the standard output followed by the standard
  error; it throws only when the command cannot be run at all, with the error of that.
  So it returns a result with \<open>success = true\<close> exactly when the command exits with code
  0. \<open>runExecTask\<close> spawns without \<open>ignoreError\<close>: every result it returns has
  \<open>success = true\<close>, it returns one when the command exits with code 0, and when the
  command exits with another code, or cannot be run, it throws the error of \<open>spawn\<close>.
\<close>

theorem exec_test_and_task_results:
  "(\<forall>r. run (head_opt (ts_command (test_spec testConfig))) (rest (ts_command (test_spec testConfig)))
           \<lparr> so_cwd = getCwd module,
             so_env = penv ++ spec_env (mod_spec module) ++ ts_env (test_spec testConfig),
             so_ignoreError = True \<rparr> = Inr r \<longrightarrow>
        testExecModule run penv module testConfig
          = Inr \<lparr> tr_moduleName = mod_name module,
                  tr_command = ts_command (test_spec testConfig),
                  tr_testName = test_name testConfig,
                  tr_version = versionString (version module),
                  tr_success = (sr_code r = 0),
                  tr_log = or_empty (sr_stdout r) @ or_empty (sr_stderr r) \<rparr>)
   \<and> (\<forall>e. run (head_opt (ts_command (test_spec testConfig))) (rest (ts_command (test_spec testConfig)))
           \<lparr> so_cwd = getCwd module,
             so_env = penv ++ spec_env (mod_spec module) ++ ts_env (test_spec testConfig),
             so_ignoreError = True \<rparr> = Inl e \<longrightarrow>
        testExecModule run penv module testConfig = Inl e)
   \<and> ((\<exists>res. testExecModule run penv module testConfig = Inr res \<and> tr_success res)
        = (\<exists>r. run (head_opt (ts_command (test_spec testConfig)))
                  (rest (ts_command (test_spec testConfig)))
                  \<lparr> so_cwd = getCwd module,
                    so_env = penv ++ spec_env (mod_spec module) ++ ts_env (test_spec testConfig),
                    so_ignoreError = True \<rparr> = Inr r
               \<and> sr_code r = 0))
   \<and> (\<forall>res. runExecTask run penv task = Inr res \<longrightarrow> rt_success res)
   \<and> (\<forall>r. run (head_opt (ks_command (tk_spec task))) (rest (ks_command (tk_spec task)))
           \<lparr> so_cwd = getCwd (tk_module task),
             so_env = penv ++ spec_env (mod_spec (tk_module task)) ++ ks_env (tk_spec task),
             so_ignoreError = False \<rparr> = Inr r \<and> sr_code r = 0 \<longrightarrow>
        runExecTask run penv task
          = Inr \<lparr> rt_moduleName = mod_name (tk_module task),
                  rt_taskName = tk_name task,
                  rt_command = ks_command (tk_spec task),
                  rt_version = versionString (version (tk_module task)),
                  rt_success = True,
                  rt_log = or_empty (sr_stdout r) @ or_empty (sr_stderr r),
                  rt_outputs_log = or_empty (sr_stdout r) @ or_empty (sr_stderr r) \<rparr>)
   \<and> (\<forall>r. run (head_opt (ks_command (tk_spec task))) (rest (ks_command (tk_spec task)))
           \<lparr> so_cwd = getCwd (tk_module task),
             so_env = penv ++ spec_env (mod_spec (tk_module task)) ++ ks_env (tk_spec task),
             so_ignoreError = False \<rparr> = Inr r \<and> sr_code r \<noteq> 0 \<longrightarrow>
        (\<exists>msg. runExecTask run penv task = Inl (RuntimeError msg)))
   \<and> (\<forall>e. run (head_opt (ks_command (tk_spec task))) (rest (ks_command (tk_spec task)))
           \<lparr> so_cwd = getCwd (tk_module task),
             so_env = penv ++ spec_env (mod_spec (tk_module task)) ++ ks_env (tk_spec task),
             so_ignoreError = False \<rparr> = Inl e \<longrightarrow>
        runExecTask run penv task = Inl e)"
proof -
  let ?topts = "\<lparr> so_cwd = getCwd module,
             so_env = penv ++ spec_env (mod_spec module) ++ ts_env (test_spec testConfig),
             so_ignoreError = True \<rparr>"
  let ?trun = "run (head_opt (ts_command (test_spec testConfig)))
                 (rest (ts_command (test_spec testConfig))) ?topts"
  have t_ok: "testExecModule run penv module testConfig
          = Inr \<lparr> tr_moduleName = mod_name module,
                  tr_command = ts_command (test_spec testConfig),
                  tr_testName = test_name testConfig,
                  tr_version = versionString (version module),
                  tr_success = (sr_code r = 0),
                  tr_log = or_empty (sr_stdout r) @ or_empty (sr_stderr r) \<rparr>"
    if "?trun = Inr r" for r
    using that by (simp add: testExecModule_def spawn_def Let_def)
  have t_err: "testExecModule run penv module testConfig = Inl e" if "?trun = Inl e" for e
    using that by (simp add: testExecModule_def spawn_def Let_def)
  have t_iff: "(\<exists>res. testExecModule run penv module testConfig = Inr res \<and> tr_success res)
        = (\<exists>r. ?trun = Inr r \<and> sr_code r = 0)"
  proof (cases ?trun)
    case (Inl e)
    with t_err [OF Inl] show ?thesis by simp
  next
    case (Inr r)
    with t_ok [OF Inr] show ?thesis by simp
  qed
  have k: "(\<forall>res. runExecTask run penv task = Inr res \<longrightarrow> rt_success res)"
    by (auto simp: runExecTask_def spawn_def Let_def split: sum.splits if_splits)
  have k_ok: "\<forall>r. run (head_opt (ks_command (tk_spec task))) (rest (ks_command (tk_spec task)))
           \<lparr> so_cwd = getCwd (tk_module task),
             so_env = penv ++ spec_env (mod_spec (tk_module task)) ++ ks_env (tk_spec task),
             so_ignoreError = False \<rparr> = Inr r \<and> sr_code r = 0 \<longrightarrow>
        runExecTask run penv task
          = Inr \<lparr> rt_moduleName = mod_name (tk_module task),
                  rt_taskName = tk_name task,
                  rt_command = ks_command (tk_spec task),
                  rt_version = versionString (version (tk_module task)),
                  rt_success = True,
                  rt_log = or_empty (sr_stdout r) @ or_empty (sr_stderr r),
                  rt_outputs_log = or_empty (sr_stdout r) @ or_empty (sr_stderr r) \<rparr>"
    by (simp add: runExecTask_def spawn_def Let_def)
  have k_fail: "\<forall>r. run (head_opt (ks_command (tk_spec task))) (rest (ks_command (tk_spec task)))
           \<lparr> so_cwd = getCwd (tk_module task),
             so_env = penv ++ spec_env (mod_spec (tk_module task)) ++ ks_env (tk_spec task),
             so_ignoreError = False \<rparr> = Inr r \<and> sr_code r \<noteq> 0 \<longrightarrow>
        (\<exists>msg. runExecTask run penv task = Inl (RuntimeError msg))"
    by (simp add: runExecTask_def spawn_def Let_def)
  have k_err: "\<forall>e. run (head_opt (ks_command (tk_spec task))) (rest (ks_command (tk_spec task)))
           \<lparr> so_cwd = getCwd (tk_module task),
             so_env = penv ++ spec_env (mod_spec (tk_module task)) ++ ks_env (tk_spec task),
             so_ignoreError = False \<rparr> = Inl e \<longrightarrow>
        runExecTask run penv task = Inl e"
    by (simp add: runExecTask_def spawn_def Let_def)
  from t_ok t_err t_iff k k_ok k_fail k_err show ?thesis by blast
qed

theorem exec_test_and_task_results_witness:
  "testExecModule run_fail Map.empty example_module example_test
     = Inr \<lparr> tr_moduleName = ''module-a'', tr_command = [''echo'', ''OK''], tr_testName = ''unit'',
             tr_version = ''v-1234'', tr_success = False, tr_log = ''outerr'' \<rparr>
   \<and> testExecModule run_ok Map.empty example_module example_test
     = Inr \<lparr> tr_moduleName = ''module-a'', tr_command = [''echo'', ''OK''], tr_testName = ''unit'',
             tr_version = ''v-1234'', tr_success = True, tr_log = ''A'' \<rparr>
   \<and> testExecModule run_enoent Map.empty example_module example_test
     = Inl (RuntimeError ''spawn ENOENT'')
   \<and> runExecTask run_fail Map.empty example_task = Inl (RuntimeError ''Command failed: echo'')
   \<and> runExecTask run_enoent Map.empty example_task = Inl (RuntimeError ''spawn ENOENT'')
   \<and> runExecTask run_ok Map.empty example_task
     = Inr \<lparr> rt_moduleName = ''module-a'', rt_taskName = ''banana'',
             rt_command = [''echo'', ''BANANA''], rt_version = ''v-1234'', rt_success = True,
             rt_log = ''A'', rt_outputs_log = ''A'' \<rparr>"
  using exec_test_and_task_results [where run = run_fail and testConfig = example_test
      and module = example_module and penv = Map.empty and task = example_task]
    exec_test_and_task_results [where run = run_ok and testConfig = example_test
      and module = example_module and penv = Map.empty and task = example_task]
    exec_test_and_task_results [where run = run_enoent and testConfig = example_test
      and module = example_module and penv = Map.empty and task = example_task]
  by (simp add: Let_def testExecModule_def runExecTask_def spawn_def run_fail_def run_ok_def
      run_enoent_def example_module_def example_test_def example_task_def example_test_spec_def
      example_task_spec_def example_version_def head_opt_def rest_def or_empty_def)

section \<open>Verification: test tasks\<close>

subsection \<open>getTestVersion\<close>

text \<open>
  C9. \<open>getTestVersion\<close> resolves the modules of the module's build dependencies and the
  test's dependencies, removes the module itself from them, and resolves the version of
  the module with what is left: no module of the module's own name is passed to
  \<open>resolveVersion\<close>. So, for a version resolver that reports dependency versions for
  the modules it is given only, the version of a test has no dependency version for the
  test's own module.
\<close>

theorem getTestVersion_excludes_own_module:
  "(\<forall>resolved.
      resolveDependencyModules graph (build_dependencies (mod_build module))
        (test_dependencies testConfig) = Inr resolved \<longrightarrow>
      getTestVersion garden graph module testConfig
        = resolveVersion garden (mod_name module)
            (filter (\<lambda>m. mod_name m \<noteq> mod_name module) resolved)
      \<and> mod_name module \<notin> mod_name ` set (filter (\<lambda>m. mod_name m \<noteq> mod_name module) resolved))
   \<and> ((\<forall>name deps v k. resolveVersion garden name deps = Inr v \<and> k \<notin> mod_name ` set deps \<longrightarrow>
          fmlookup (dependencyVersions v) k = None) \<longrightarrow>
       (\<forall>v. getTestVersion garden graph module testConfig = Inr v \<longrightarrow>
          fmlookup (dependencyVersions v) (mod_name module) = None))"
proof (intro conjI allI impI)
  fix resolved
  assume "resolveDependencyModules graph (build_dependencies (mod_build module))
        (test_dependencies testConfig) = Inr resolved"
  then show "getTestVersion garden graph module testConfig
        = resolveVersion garden (mod_name module)
            (filter (\<lambda>m. mod_name m \<noteq> mod_name module) resolved)"
    by (simp add: getTestVersion_def)
next
  fix resolved
  show "mod_name module \<notin> mod_name ` set (filter (\<lambda>m. mod_name m \<noteq> mod_name module) resolved)"
    by auto
next
  fix v
  assume faithful: "\<forall>name deps v k. resolveVersion garden name deps = Inr v
          \<and> k \<notin> mod_name ` set deps \<longrightarrow> fmlookup (dependencyVersions v) k = None"
    and v: "getTestVersion garden graph module testConfig = Inr v"
  from v obtain resolved where
    "resolveVersion garden (mod_name module)
       (filter (\<lambda>m. mod_name m \<noteq> mod_name module) resolved) = Inr v"
    by (auto simp: getTestVersion_def split: sum.splits)
  moreover have "mod_name module
      \<notin> mod_name ` set (filter (\<lambda>m. mod_name m \<noteq> mod_name module) resolved)"
    by auto
  ultimately show "fmlookup (dependencyVersions v) (mod_name module) = None"
    using faithful by blast
qed

theorem getTestVersion_excludes_own_module_witness:
  "getTestVersion (example_garden True) example_graph example_module example_test
     = Inr \<lparr> versionString = ''v-test'',
             dependencyVersions = fmap_of_list [(''module-b'', ''v-b'')], files = [] \<rparr>
   \<and> fmlookup (fmap_of_list [(''module-b'', ''v-b'')]) ''module-a'' = None"
proof -
  have faithful: "\<forall>name deps v k. resolveVersion (example_garden True) name deps = Inr v
          \<and> k \<notin> mod_name ` set deps \<longrightarrow> fmlookup (dependencyVersions v) k = None"
    by (auto simp: example_garden_def fmlookup_of_list map_of_eq_None_iff image_image)
  have resolved: "resolveDependencyModules example_graph
       (build_dependencies (mod_build example_module)) (test_dependencies example_test)
       = Inr [example_module, module_b]"
    by (simp add: example_graph_def)
  have names: "mod_name example_module = ''module-a''" "mod_name module_b = ''module-b''"
    "versionString (version module_b) = ''v-b''"
    by (simp_all add: example_module_def module_b_def)
  have "resolveVersion (example_garden True) ''module-a'' [module_b]
      = Inr \<lparr> versionString = ''v-test'',
             dependencyVersions = fmap_of_list [(''module-b'', ''v-b'')], files = [] \<rparr>"
    by (simp add: example_garden_def names)
  then show ?thesis
    using getTestVersion_excludes_own_module [where garden = "example_garden True"
        and graph = example_graph and module = example_module and testConfig = example_test]
      faithful resolved names
    by simp
qed

subsection \<open>getTestTasks\<close>







subsection \<open>TestTask.process\<close>

text \<open>
  C1 (as amended). Without \<open>force\<close>, when the lookup of \<open>getTestResult\<close> returns a stored
  result that passed, \<open>process\<close> returns that result and the only handler called is
  \<open>getTestResult\<close>: \<open>testModule\<close> is not called; when the lookup throws, so does
  \<open>process\<close>. In every other case, that is with \<open>force\<close> (\<open>getTestResult\<close> is then
  not called at all), when nothing is stored, and when the stored result did not pass
  (it is not returned), the test is run again: the dependencies of the test and its
  runtime context are obtained, \<open>process\<close> throwing their error without calling
  \<open>testModule\<close> when one of them throws, and then \<open>testModule\<close> is called and decides
  the outcome, its result when it passed and a TestError with its log when it did not.
\<close>

theorem TestTask_process_memoized:
  "(\<forall>stored. \<not> tt_force task
      \<and> actions_getTestResult garden (tt_module task) (test_name (tt_testConfig task)) (tt_version task)
          = Inr (Some stored)
      \<and> tr_success stored \<longrightarrow>
        TestTask_process garden graph prepare task results
          = (Inr stored, [GetTestResult (mod_name (tt_module task)) (test_name (tt_testConfig task))]))
   \<and> (\<forall>e. \<not> tt_force task
      \<and> actions_getTestResult garden (tt_module task) (test_name (tt_testConfig task)) (tt_version task)
          = Inl e \<longrightarrow>
        TestTask_process garden graph prepare task results
          = (Inl e, [GetTestResult (mod_name (tt_module task)) (test_name (tt_testConfig task))]))
   \<and> (tt_force task
        \<or> actions_getTestResult garden (tt_module task) (test_name (tt_testConfig task))
             (tt_version task) = Inr None
        \<or> (\<exists>stored.
              actions_getTestResult garden (tt_module task) (test_name (tt_testConfig task))
                (tt_version task) = Inr (Some stored)
              \<and> \<not> tr_success stored) \<longrightarrow>
        (\<forall>e. graph_getDependencies graph ''test'' (test_name (tt_testConfig task)) False = Inl e \<longrightarrow>
           TestTask_process garden graph prepare task results
             = (Inl e,
                if tt_force task then []
                else [GetTestResult (mod_name (tt_module task)) (test_name (tt_testConfig task))]))
      \<and> (\<forall>deps e.
            graph_getDependencies graph ''test'' (test_name (tt_testConfig task)) False = Inr deps
            \<and> prepare (tt_module task) deps results = Inl e \<longrightarrow>
            TestTask_process garden graph prepare task results
              = (Inl e,
                 if tt_force task then []
                 else [GetTestResult (mod_name (tt_module task)) (test_name (tt_testConfig task))]))
      \<and> (\<forall>deps ctx.
            graph_getDependencies graph ''test'' (test_name (tt_testConfig task)) False = Inr deps
            \<and> prepare (tt_module task) deps results = Inr ctx \<longrightarrow>
            TestTask_process garden graph prepare task results
              = (case actions_testModule garden (tt_module task) ctx (tt_testConfig task)
                        (tt_version task) of
                   Inl e \<Rightarrow> Inl e
                 | Inr r \<Rightarrow> if tr_success r then Inr r else Inl (TestError (tr_log r)),
                 (if tt_force task then []
                  else [GetTestResult (mod_name (tt_module task)) (test_name (tt_testConfig task))])
                 @ [TestModule (mod_name (tt_module task)) (test_name (tt_testConfig task))])))"
  by (auto simp: TestTask_process_def TestTask_getTestResult_def passed_def Let_def
      split: sum.splits option.splits)

theorem TestTask_process_memoized_witness:
  "TestTask_process (example_garden True) example_graph ok_prepare (example_test_task False) ()
     = (Inr (stored_result True), [GetTestResult ''module-a'' ''unit''])
   \<and> TestTask_process (example_garden True) example_graph ok_prepare (example_test_task True) ()
     = (Inr fresh_result, [TestModule ''module-a'' ''unit''])
   \<and> TestTask_process (example_garden False) example_graph ok_prepare (example_test_task False) ()
     = (Inr fresh_result, [GetTestResult ''module-a'' ''unit'', TestModule ''module-a'' ''unit''])
   \<and> TestTask_process empty_cache_garden example_graph ok_prepare (example_test_task False) ()
     = (Inl (TestError ''assertion failed''),
        [GetTestResult ''module-a'' ''unit'', TestModule ''module-a'' ''unit''])
   \<and> TestTask_process broken_cache_garden example_graph ok_prepare (example_test_task False) ()
     = (Inl (RuntimeError ''cache unavailable''), [GetTestResult ''module-a'' ''unit''])
   \<and> TestTask_process (example_garden False) failing_graph ok_prepare (example_test_task False) ()
     = (Inl (RuntimeError ''no such test''), [GetTestResult ''module-a'' ''unit''])
   \<and> TestTask_process (example_garden True) example_graph failing_prepare (example_test_task True) ()
     = (Inl (RuntimeError ''no runtime context''), [])"
proof -
  have task: "tt_force (example_test_task f) = f" "tt_module (example_test_task f) = example_module"
    "tt_testConfig (example_test_task f) = example_test"
    "mod_name example_module = ''module-a''" "test_name example_test = ''unit''" for f
    by (simp_all add: example_test_task_def example_module_def example_test_def)
  have gardens: "actions_getTestResult (example_garden ok) m n v = Inr (Some (stored_result ok))"
    "actions_testModule (example_garden ok) m c t v = Inr fresh_result"
    "actions_getTestResult empty_cache_garden m n v = Inr None"
    "actions_testModule empty_cache_garden m c t v = Inr failed_result"
    "actions_getTestResult broken_cache_garden m n v = Inl (RuntimeError ''cache unavailable'')"
    for ok m n v c t
    by (simp_all add: example_garden_def empty_cache_garden_def broken_cache_garden_def)
  have graphs: "graph_getDependencies example_graph k n r = Inr ()"
    "graph_getDependencies failing_graph k n r = Inl (RuntimeError ''no such test'')" for k n r
    by (simp_all add: example_graph_def failing_graph_def)
  have results: "tr_success (stored_result ok) = ok" "tr_success fresh_result"
    "\<not> tr_success failed_result" "tr_log failed_result = ''assertion failed''" for ok
    by (simp_all add: stored_result_def fresh_result_def failed_result_def)
  have prepares: "ok_prepare m () () = Inr ()"
    "failing_prepare m () () = Inl (RuntimeError ''no runtime context'')" for m
    by (simp_all add: ok_prepare_def failing_prepare_def)
  note facts = task gardens graphs results prepares
  show ?thesis
    using TestTask_process_memoized [where task = "example_test_task False"
        and garden = "example_garden True" and graph = example_graph and prepare = ok_prepare
        and results = "()"]
      TestTask_process_memoized [where task = "example_test_task True"
        and garden = "example_garden True" and graph = example_graph and prepare = ok_prepare
        and results = "()"]
      TestTask_process_memoized [where task = "example_test_task False"
        and garden = "example_garden False" and graph = example_graph and prepare = ok_prepare
        and results = "()"]
      TestTask_process_memoized [where task = "example_test_task False"
        and garden = empty_cache_garden and graph = example_graph and prepare = ok_prepare
        and results = "()"]
      TestTask_process_memoized [where task = "example_test_task False"
        and garden = broken_cache_garden and graph = example_graph and prepare = ok_prepare
        and results = "()"]
      TestTask_process_memoized [where task = "example_test_task False"
        and garden = "example_garden False" and graph = failing_graph and prepare = ok_prepare
        and results = "()"]
      TestTask_process_memoized [where task = "example_test_task True"
        and garden = "example_garden True" and graph = example_graph and prepare = failing_prepare
        and results = "()"]
    by (simp add: facts)
qed

text \<open>
  C1 as it is stated fails for a stored result that did not pass: without \<open>force\<close>, the
  lookup returns the stored result, and \<open>process\<close> calls \<open>testModule\<close> all the same and
  returns the new result. And with \<open>force\<close>, \<open>testModule\<close> is not called when the
  runtime context cannot be prepared.
\<close>

theorem TestTask_process_failed_result_counterexample:
  "\<not> tt_force (example_test_task False)
   \<and> actions_getTestResult (example_garden False) (tt_module (example_test_task False))
        (test_name (tt_testConfig (example_test_task False))) (tt_version (example_test_task False))
       = Inr (Some (stored_result False))
   \<and> TestTask_process (example_garden False) example_graph ok_prepare (example_test_task False) ()
       = (Inr fresh_result, [GetTestResult ''module-a'' ''unit'', TestModule ''module-a'' ''unit''])
   \<and> fresh_result \<noteq> stored_result False
   \<and> tt_force (example_test_task True)
   \<and> TestTask_process (example_garden False) example_graph failing_prepare (example_test_task True) ()
       = (Inl (RuntimeError ''no runtime context''), [])"
  by (simp add: TestTask_process_def TestTask_getTestResult_def passed_def
      example_test_task_def example_module_def example_test_def ok_prepare_def failing_prepare_def
      example_garden_def example_graph_def stored_result_def fresh_result_def)

section \<open>Verification: resolving providers\<close>

subsection \<open>Base chains\<close>

lemma bind_sum_Inr:
  "(Option.bind m (\<lambda>r. case r of Inl e \<Rightarrow> Some (Inl e) | Inr x \<Rightarrow> Some (Inr (f x))) = Some (Inr y))
   = (\<exists>x. m = Some (Inr x) \<and> y = f x)"
proof (cases m)
  case None
  then show ?thesis by simp
next
  case (Some r)
  then show ?thesis by (cases r) auto
qed

lemma has_base_Some: "(has_base p = Some b) = (plugin_base p = Some b \<and> b \<noteq> [])"
  by (auto simp: has_base_def split: option.splits)

lemma in_base_chain_iff:
  "in_base_chain loaded p r =
     (\<exists>b q. has_base p = Some b \<and> loaded b = Some q \<and> (r = q \<or> in_base_chain loaded q r))"
  by (auto simp: has_base_Some elim: in_base_chain.cases intro: in_base_chain.intros)

lemma getPluginBases_chain:
  "getPluginBases p loaded = Some (Inr bases) \<Longrightarrow> set bases = {q. in_base_chain loaded p q}"
proof (induction bases arbitrary: p)
  case Nil
  then have "has_base p = None"
    by (subst (asm) getPluginBases.simps)
       (auto split: option.splits simp: bind_sum_Inr)
  then show ?case by (auto simp: in_base_chain_iff [of loaded p])
next
  case (Cons a bases)
  from Cons.prems obtain b where b: "has_base p = Some b" "loaded b = Some a"
    "getPluginBases a loaded = Some (Inr bases)"
    by (subst (asm) getPluginBases.simps)
       (auto split: option.splits simp: bind_sum_Inr)
  from Cons.IH [OF b(3)] have "set bases = {q. in_base_chain loaded a q}" .
  then show ?case using b(1,2) by (auto simp: in_base_chain_iff [of loaded p])
qed

lemma getPluginBaseNames_matches:
  assumes "getPluginBaseNames (pc_name c) plugins = Some (Inr names)"
  shows "(pc_name c = D \<or> D \<in> set names) = matches plugins D c"
proof -
  from assms obtain p bases where p: "plugins (pc_name c) = Some p"
    "getPluginBases p plugins = Some (Inr bases)" "names = map plugin_name bases"
    by (auto simp: getPluginBaseNames_def bind_sum_Inr split: option.splits)
  from getPluginBases_chain [OF p(2)] have "set bases = {q. in_base_chain plugins p q}" .
  then show ?thesis using p(1,3) by (auto simp: matches_def)
qed

lemma matchConfigs_filter:
  "\<forall>c\<in>set raw. \<exists>names. getPluginBaseNames (pc_name c) plugins = Some (Inr names) \<Longrightarrow>
   matchConfigs plugins D raw = Some (Inr (filter (matches plugins D) raw))"
proof (induction raw)
  case Nil
  then show ?case by simp
next
  case (Cons c raw)
  then obtain names where names: "getPluginBaseNames (pc_name c) plugins = Some (Inr names)"
    by auto
  have rest: "matchConfigs plugins D raw = Some (Inr (filter (matches plugins D) raw))"
    using Cons by simp
  show ?case
  proof (cases "pc_name c = D")
    case True
    then have "matches plugins D c" by (simp add: matches_def)
    with True rest show ?thesis by simp
  next
    case False
    with getPluginBaseNames_matches [OF names, of D]
    have "(D \<in> set names) = matches plugins D c" by simp
    with False names rest show ?thesis by simp
  qed
qed


lemma dependencyTasks_wf:
  assumes "\<forall>c\<in>set (garden_getRawProviderConfigs garden).
             \<exists>names. getPluginBaseNames (pc_name c) (keyBy_name (garden_getPlugins garden))
                        = Some (Inr names)"
  shows "dependencyTasks garden task D =
     Some (if filter (matches (keyBy_name (garden_getPlugins garden)) D)
                (garden_getRawProviderConfigs garden) = []
           then Inl (ConfigurationError (missing_dependency_message D (pc_name (rp_config task))))
           else Inr (map (\<lambda>config. \<lparr> rp_config = config,
                                      rp_plugin = keyBy_name (garden_getPlugins garden) D,
                                      rp_forceInit = rp_forceInit task \<rparr>)
                      (filter (matches (keyBy_name (garden_getPlugins garden)) D)
                         (garden_getRawProviderConfigs garden))))"
  by (simp add: dependencyTasks_def Let_def matchConfigs_filter [OF assms])

lemma map_names_all_Inr:
  "\<forall>x\<in>set xs. f x = Some (Inr (g x)) \<Longrightarrow> map_names f xs = Some (Inr (map g xs))"
  by (induction xs) auto

lemma map_names_some_Inl:
  "\<forall>x\<in>set xs. f x = Some (if bad x then Inl (err x) else Inr (g x)) \<Longrightarrow> \<exists>x\<in>set xs. bad x \<Longrightarrow>
   \<exists>x\<in>set xs. bad x \<and> map_names f xs = Some (Inl (err x))"
proof (induction xs)
  case Nil
  then show ?case by simp
next
  case (Cons a xs)
  show ?case
  proof (cases "bad a")
    case True
    with Cons.prems show ?thesis by simp
  next
    case False
    with Cons.prems have "\<exists>x\<in>set xs. bad x" by auto
    with Cons obtain x where "x \<in> set xs" "bad x" "map_names f xs = Some (Inl (err x))"
      by auto
    with False Cons.prems show ?thesis by auto
  qed
qed

text \<open>
  The invariant of the data model makes \<open>getPluginBases\<close> return the base chain: the
  plugins come from a list, so they are finitely many, every base exists, and no plugin
  is among its own bases, so each step along the chain leaves fewer bases to visit.
\<close>

lemma fold_keyBy_in_set:
  "fold (\<lambda>p m. m(plugin_name p \<mapsto> p)) ps m n = Some q \<Longrightarrow> q \<in> set ps \<or> m n = Some q"
proof (induction ps arbitrary: m)
  case Nil
  then show ?case by simp
next
  case (Cons a ps)
  from Cons.prems have "fold (\<lambda>p m. m(plugin_name p \<mapsto> p)) ps (m(plugin_name a \<mapsto> a)) n = Some q"
    by (simp only: fold_simps o_apply)
  from Cons.IH [OF this] show ?case
    by (auto split: if_splits)
qed

lemma keyBy_name_in_set: "keyBy_name ps n = Some q \<Longrightarrow> q \<in> set ps"
  using fold_keyBy_in_set [of ps Map.empty n q] by (simp add: keyBy_name_def)

lemma finite_ran_keyBy_name: "finite (ran (keyBy_name ps))"
proof (rule finite_subset)
  show "ran (keyBy_name ps) \<subseteq> set ps"
    by (auto simp: ran_def dest: keyBy_name_in_set)
qed simp

lemma in_base_chain_loaded: "in_base_chain loaded p q \<Longrightarrow> q \<in> ran loaded"
  by (induction rule: in_base_chain.induct) (auto simp: ran_def)

lemma getPluginBases_resolves:
  assumes fin: "finite (ran loaded)"
    and bases: "\<forall>n p b. loaded n = Some p \<and> plugin_base p = Some b \<and> b \<noteq> [] \<longrightarrow> loaded b \<noteq> None"
    and acyclic: "\<forall>n p. loaded n = Some p \<longrightarrow> \<not> in_base_chain loaded p p"
    and loaded: "loaded n = Some p"
  shows "\<exists>bs. getPluginBases p loaded = Some (Inr bs)"
  using loaded
proof (induction "card {q. in_base_chain loaded p q}" arbitrary: p n rule: less_induct)
  case less
  show ?case
  proof (cases "has_base p")
    case None
    then show ?thesis by (subst getPluginBases.simps) simp
  next
    case (Some b)
    then have b: "plugin_base p = Some b" "b \<noteq> []"
      by (simp_all add: has_base_Some)
    with bases less.prems obtain q where q: "loaded b = Some q"
      by blast
    have fin_p: "finite {r. in_base_chain loaded p r}"
      by (rule finite_subset [OF _ fin]) (auto dest: in_base_chain_loaded)
    have "q \<in> {r. in_base_chain loaded p r}"
      using b q by (auto intro: in_base_chain.direct)
    moreover have "q \<notin> {r. in_base_chain loaded q r}"
      using acyclic q by simp
    moreover have "{r. in_base_chain loaded q r} \<subseteq> {r. in_base_chain loaded p r}"
      using b q by (auto intro: in_base_chain.further)
    ultimately have "{r. in_base_chain loaded q r} \<subset> {r. in_base_chain loaded p r}"
      by blast
    then have "card {r. in_base_chain loaded q r} < card {r. in_base_chain loaded p r}"
      using fin_p by (rule psubset_card_mono [rotated])
    from less.hyps [OF this q] obtain bs where "getPluginBases q loaded = Some (Inr bs)"
      by blast
    with Some q show ?thesis
      by (subst getPluginBases.simps) simp
  qed
qed

lemma getPluginBaseNames_resolves:
  assumes "finite (ran loaded)"
    and "\<forall>n p b. loaded n = Some p \<and> plugin_base p = Some b \<and> b \<noteq> [] \<longrightarrow> loaded b \<noteq> None"
    and "\<forall>n p. loaded n = Some p \<longrightarrow> \<not> in_base_chain loaded p p"
    and "loaded n \<noteq> None"
  shows "\<exists>names. getPluginBaseNames n loaded = Some (Inr names)"
proof -
  from assms(4) obtain p where p: "loaded n = Some p" by blast
  from getPluginBases_resolves [OF assms(1-3) p]
  obtain bs where "getPluginBases p loaded = Some (Inr bs)" by blast
  with p show ?thesis by (simp add: getPluginBaseNames_def)
qed

subsection \<open>getDependencies\<close>

text \<open>
  C3. Let the plugins satisfy the invariant of the data model: every configured provider
  has a loaded plugin, every base named by a loaded plugin is loaded, and no loaded
  plugin is in its own base chain. Let \<open>D\<close> range over the dependency names of the
  task's provider, which are the declared dependencies of its plugin together with the
  providers its configuration refers to. When every \<open>D\<close> is matched by a configured
  provider, \<open>getDependencies\<close> returns, for each \<open>D\<close> in turn, one task for each
  configured provider whose name is \<open>D\<close> or whose base chain contains \<open>D\<close>, in the
  order of the configuration; the task has the provider's configuration and the plugin
  named \<open>D\<close>. When some \<open>D\<close> is matched by no configured provider, it throws the
  ConfigurationError that names such a \<open>D\<close>.
\<close>

theorem getDependencies_matches_bases:
  assumes configured: "\<forall>c\<in>set (garden_getRawProviderConfigs garden).
             keyBy_name (garden_getPlugins garden) (pc_name c) \<noteq> None"
    and bases: "\<forall>n p b. keyBy_name (garden_getPlugins garden) n = Some p
             \<and> plugin_base p = Some b \<and> b \<noteq> [] \<longrightarrow>
             keyBy_name (garden_getPlugins garden) b \<noteq> None"
    and acyclic: "\<forall>n p. keyBy_name (garden_getPlugins garden) n = Some p \<longrightarrow>
             \<not> in_base_chain (keyBy_name (garden_getPlugins garden)) p p"
  shows "((\<forall>D\<in>set (depNamesOf (rp_plugin task) (rp_config task)).
            \<exists>c\<in>set (garden_getRawProviderConfigs garden).
               matches (keyBy_name (garden_getPlugins garden)) D c) \<longrightarrow>
          getDependencies depNamesOf garden task =
            Some (Inr (concat (map (\<lambda>D. map (\<lambda>config. \<lparr> rp_config = config,
                                             rp_plugin = keyBy_name (garden_getPlugins garden) D,
                                             rp_forceInit = rp_forceInit task \<rparr>)
                                      (filter (matches (keyBy_name (garden_getPlugins garden)) D)
                                         (garden_getRawProviderConfigs garden)))
                         (depNamesOf (rp_plugin task) (rp_config task))))))
       \<and> ((\<exists>D\<in>set (depNamesOf (rp_plugin task) (rp_config task)).
             \<not> (\<exists>c\<in>set (garden_getRawProviderConfigs garden).
                   matches (keyBy_name (garden_getPlugins garden)) D c)) \<longrightarrow>
          (\<exists>D\<in>set (depNamesOf (rp_plugin task) (rp_config task)).
             \<not> (\<exists>c\<in>set (garden_getRawProviderConfigs garden).
                   matches (keyBy_name (garden_getPlugins garden)) D c)
             \<and> getDependencies depNamesOf garden task =
                 Some (Inl (ConfigurationError
                              (missing_dependency_message D (pc_name (rp_config task)))))))"
proof -
  let ?plugins = "keyBy_name (garden_getPlugins garden)"
  let ?raw = "garden_getRawProviderConfigs garden"
  let ?names = "depNamesOf (rp_plugin task) (rp_config task)"
  let ?mk = "\<lambda>D. map (\<lambda>config. \<lparr> rp_config = config, rp_plugin = ?plugins D,
                                   rp_forceInit = rp_forceInit task \<rparr>)
                    (filter (matches ?plugins D) ?raw)"
  let ?bad = "\<lambda>D. filter (matches ?plugins D) ?raw = []"
  let ?err = "\<lambda>D. ConfigurationError (missing_dependency_message D (pc_name (rp_config task)))"
  have resolves: "\<forall>c\<in>set ?raw. \<exists>names. getPluginBaseNames (pc_name c) ?plugins = Some (Inr names)"
  proof
    fix c
    assume "c \<in> set ?raw"
    with configured have "?plugins (pc_name c) \<noteq> None" by blast
    then show "\<exists>names. getPluginBaseNames (pc_name c) ?plugins = Some (Inr names)"
      using bases acyclic
      by (intro getPluginBaseNames_resolves finite_ran_keyBy_name)
  qed
  have each: "dependencyTasks garden task D = Some (if ?bad D then Inl (?err D) else Inr (?mk D))"
    for D
    by (rule dependencyTasks_wf [OF resolves])
  have bad_iff: "?bad D = (\<not> (\<exists>c\<in>set ?raw. matches ?plugins D c))" for D
    by (auto simp: filter_empty_conv)
  show ?thesis
  proof (intro conjI impI)
    assume "\<forall>D\<in>set ?names. \<exists>c\<in>set ?raw. matches ?plugins D c"
    then have "\<forall>D\<in>set ?names. dependencyTasks garden task D = Some (Inr (?mk D))"
      using each bad_iff by simp
    then have "map_names (dependencyTasks garden task) ?names = Some (Inr (map ?mk ?names))"
      by (rule map_names_all_Inr)
    then show "getDependencies depNamesOf garden task = Some (Inr (concat (map ?mk ?names)))"
      by (simp add: getDependencies_def)
  next
    assume "\<exists>D\<in>set ?names. \<not> (\<exists>c\<in>set ?raw. matches ?plugins D c)"
    then have "\<exists>D\<in>set ?names. ?bad D"
      using bad_iff by simp
    with map_names_some_Inl [of ?names "dependencyTasks garden task" ?bad ?err ?mk] each
    obtain D where D: "D \<in> set ?names" "?bad D"
      "map_names (dependencyTasks garden task) ?names = Some (Inl (?err D))"
      by blast
    from D(3) have "getDependencies depNamesOf garden task = Some (Inl (?err D))"
      by (simp add: getDependencies_def)
    with D(1,2) bad_iff
    show "\<exists>D\<in>set ?names. \<not> (\<exists>c\<in>set ?raw. matches ?plugins D c)
             \<and> getDependencies depNamesOf garden task = Some (Inl (?err D))"
      by blast
  qed
qed

theorem getDependencies_matches_bases_witness:
  "getDependencies declared_dependencies (provider_garden [base_a, base_b, deep_a, test_b])
     (resolve_task test_b)
     = Some (Inr [\<lparr> rp_config = make_config ''test-a'', rp_plugin = Some base_a,
                     rp_forceInit = False \<rparr>])
   \<and> getDependencies declared_dependencies (provider_garden [base_a, base_b, deep_a, test_b])
        (resolve_task (make_plugin ''test-c'' None (Some [''base-b'', ''test-b'']) None))
     = Some (Inr [\<lparr> rp_config = make_config ''test-a'', rp_plugin = Some base_b,
                     rp_forceInit = False \<rparr>,
                  \<lparr> rp_config = make_config ''test-b'', rp_plugin = Some test_b,
                     rp_forceInit = False \<rparr>])
   \<and> getDependencies declared_dependencies (provider_garden [base_a, base_b, deep_a, test_b])
        (resolve_task (make_plugin ''test-c'' None (Some [''other'']) None))
     = Some (Inl (ConfigurationError (missing_dependency_message ''other'' ''test-c'')))"
proof -
  let ?garden = "provider_garden [base_a, base_b, deep_a, test_b]"
  let ?plugins = "keyBy_name (garden_getPlugins ?garden)"
  let ?c = "make_plugin ''test-c'' None (Some [''other'']) None"
  let ?d = "make_plugin ''test-c'' None (Some [''base-b'', ''test-b'']) None"
  have raw: "garden_getRawProviderConfigs ?garden = [make_config ''test-a'', make_config ''test-b'']"
    by (simp add: provider_garden_def)
  have lookup: "?plugins ''base-a'' = Some base_a" "?plugins ''base-b'' = Some base_b"
    "?plugins ''test-a'' = Some deep_a" "?plugins ''test-b'' = Some test_b"
    by (simp_all add: keyBy_name_def provider_garden_def base_a_def base_b_def deep_a_def
        test_b_def make_plugin_def)
  have loaded: "p = base_a \<or> p = base_b \<or> p = deep_a \<or> p = test_b" if "?plugins n = Some p" for n p
    using keyBy_name_in_set [OF that] by (simp add: provider_garden_def)
  have base_of: "plugin_base base_a = None" "plugin_base base_b = Some ''base-a''"
    "plugin_base deep_a = Some ''base-b''" "plugin_base test_b = None"
    by (simp_all add: base_a_def base_b_def deep_a_def test_b_def make_plugin_def)
  have chains: "getPluginBases base_a ?plugins = Some (Inr [])"
    "getPluginBases base_b ?plugins = Some (Inr [base_a])"
    "getPluginBases deep_a ?plugins = Some (Inr [base_b, base_a])"
    "getPluginBases test_b ?plugins = Some (Inr [])"
    by (simp_all add: getPluginBases.simps has_base_def lookup base_of)
  have distinct: "base_b \<noteq> base_a" "deep_a \<noteq> base_a" "deep_a \<noteq> base_b"
    by (simp_all add: base_a_def base_b_def deep_a_def make_plugin_def)
  have configured: "\<forall>c\<in>set (garden_getRawProviderConfigs ?garden). ?plugins (pc_name c) \<noteq> None"
    by (simp add: raw lookup make_config_def)
  have bases: "\<forall>n p b. ?plugins n = Some p \<and> plugin_base p = Some b \<and> b \<noteq> [] \<longrightarrow> ?plugins b \<noteq> None"
  proof (intro allI impI)
    fix n p b
    assume h: "?plugins n = Some p \<and> plugin_base p = Some b \<and> b \<noteq> []"
    then have "p = base_a \<or> p = base_b \<or> p = deep_a \<or> p = test_b" using loaded by blast
    with h show "?plugins b \<noteq> None" by (auto simp: base_of lookup)
  qed
  have acyclic: "\<forall>n p. ?plugins n = Some p \<longrightarrow> \<not> in_base_chain ?plugins p p"
  proof (intro allI impI)
    fix n p
    assume "?plugins n = Some p"
    then have "p = base_a \<or> p = base_b \<or> p = deep_a \<or> p = test_b" by (rule loaded)
    then show "\<not> in_base_chain ?plugins p p"
      using getPluginBases_chain [OF chains(1)] getPluginBases_chain [OF chains(2)]
        getPluginBases_chain [OF chains(3)] getPluginBases_chain [OF chains(4)] distinct
      by auto
  qed
  have plugin_names: "plugin_name base_a = ''base-a''" "plugin_name base_b = ''base-b''"
    by (simp_all add: base_a_def base_b_def make_plugin_def)
  have names: "getPluginBaseNames (pc_name (make_config ''test-a'')) ?plugins
      = Some (Inr [''base-b'', ''base-a''])"
    "getPluginBaseNames (pc_name (make_config ''test-b'')) ?plugins = Some (Inr [])"
    by (simp_all add: getPluginBaseNames_def make_config_def lookup chains plugin_names)
  have m: "matches ?plugins D (make_config ''test-a'')
             = (D = ''test-a'' \<or> D = ''base-b'' \<or> D = ''base-a'')"
    "matches ?plugins D (make_config ''test-b'') = (D = ''test-b'')" for D
    using getPluginBaseNames_matches [OF names(1), of D, symmetric]
      getPluginBaseNames_matches [OF names(2), of D, symmetric]
    by (auto simp: make_config_def)
  have deps: "declared_dependencies (rp_plugin (resolve_task test_b)) (rp_config (resolve_task test_b))
      = [''base-a'']"
    "declared_dependencies (rp_plugin (resolve_task ?c)) (rp_config (resolve_task ?c)) = [''other'']"
    "declared_dependencies (rp_plugin (resolve_task ?d)) (rp_config (resolve_task ?d))
      = [''base-b'', ''test-b'']"
    by (simp_all add: declared_dependencies_def resolve_task_def test_b_def make_plugin_def)
  have task: "rp_forceInit (resolve_task p) = False"
    "pc_name (rp_config (resolve_task ?c)) = ''test-c''" for p
    by (simp_all add: resolve_task_def make_config_def make_plugin_def)
  have a: "getDependencies declared_dependencies ?garden (resolve_task test_b)
     = Some (Inr [\<lparr> rp_config = make_config ''test-a'', rp_plugin = Some base_a,
                     rp_forceInit = False \<rparr>])"
    using getDependencies_matches_bases [OF configured bases acyclic, of declared_dependencies
        "resolve_task test_b"]
    by (simp add: deps raw m lookup task)
  have b: "getDependencies declared_dependencies ?garden (resolve_task ?d)
     = Some (Inr [\<lparr> rp_config = make_config ''test-a'', rp_plugin = Some base_b,
                     rp_forceInit = False \<rparr>,
                  \<lparr> rp_config = make_config ''test-b'', rp_plugin = Some test_b,
                     rp_forceInit = False \<rparr>])"
    using getDependencies_matches_bases [OF configured bases acyclic, of declared_dependencies
        "resolve_task ?d"]
    by (simp add: deps raw m lookup task)
  have c: "getDependencies declared_dependencies ?garden (resolve_task ?c)
     = Some (Inl (ConfigurationError (missing_dependency_message ''other'' ''test-c'')))"
    using getDependencies_matches_bases [OF configured bases acyclic, of declared_dependencies
        "resolve_task ?c"]
    by (simp add: deps raw m lookup task)
  from a b c show ?thesis by simp
qed

subsection \<open>ensurePrepared\<close>

lemma ensurePrepared_Inr_ready:
  "fst (ensurePrepared garden task tmpProvider) = Inr status \<Longrightarrow> ready status"
  by (auto simp: ensurePrepared_def Let_def split: sum.splits if_splits prod.splits)

lemma process_Inr:
  assumes "process garden task results = Some (Inr provider, calls)"
  obtains plugin resolved validated resolvedConfig moduleConfigs calls1 bases final status calls2
  where "rp_plugin task = Some plugin"
    and "garden_resolveTemplateStrings garden (rp_config task)
           (map (\<lambda>(key, result). map_option tres_output result) results) = Inr resolved"
    and "validateConfig plugin resolved = Inr validated"
    and "configure garden plugin (pc_name resolved)
           (validated \<lparr> pc_path := Some (garden_projectRoot garden) \<rparr>)
           (map (\<lambda>(key, result). map_option tres_output result) results)
         = (Inr (resolvedConfig, moduleConfigs), calls1)"
    and "getPluginBases plugin (keyBy_name (garden_getPlugins garden)) = Some (Inr bases)"
    and "validateBases bases resolvedConfig = Inr final"
    and "ensurePrepared garden task
           (providerFromConfig final (map (\<lambda>(key, result). map_option tres_output result) results)
              moduleConfigs (garden_defaultEnvironmentStatus garden)) = (Inr status, calls2)"
    and "provider = providerFromConfig final
           (map (\<lambda>(key, result). map_option tres_output result) results) moduleConfigs status"
    and "calls = calls1 @ calls2"
  using assms
  by (auto simp: process_def Let_def split: sum.splits option.splits prod.splits)

text \<open>\<open>process\<close> returns, a provider or an error, whenever the base chain of its plugin does.\<close>

lemma process_returns:
  assumes "\<And>plugin. rp_plugin task = Some plugin \<Longrightarrow>
             \<exists>r. getPluginBases plugin (keyBy_name (garden_getPlugins garden)) = Some r"
  shows "\<exists>r. process garden task results = Some r"
proof (cases "rp_plugin task")
  case None
  then show ?thesis
    by (simp add: process_def Let_def split: sum.splits)
next
  case (Some plugin)
  with assms obtain r where "getPluginBases plugin (keyBy_name (garden_getPlugins garden)) = Some r"
    by blast
  with Some show ?thesis
    by (simp add: process_def Let_def split: sum.splits prod.splits)
qed

text \<open>
  C2 (as amended). When the \<open>getEnvironmentStatus\<close> handler throws, \<open>ensurePrepared\<close>
  throws its error and prepares nothing, also when \<open>forceInit\<close> was requested. When the
  handler returns a status, \<open>ensurePrepared\<close> calls the \<open>prepareEnvironment\<close> handler if
  and only if \<open>forceInit\<close> was requested or that status has \<open>ready = false\<close>; without
  the call it returns the status. After the call it throws the error of the handler, or
  returns the status the handler produced when that has \<open>ready = true\<close>, or throws a
  PluginError when that still has \<open>ready = false\<close>. So a status that \<open>ensurePrepared\<close>
  returns has \<open>ready = true\<close>, and the status of every provider \<open>process\<close> returns is
  the one \<open>ensurePrepared\<close> returned for it and has \<open>ready = true\<close>.
\<close>

theorem ensurePrepared_prepares_when_needed:
  "(\<forall>e. getActionHandler (garden_environmentStatusHandlers garden (prov_name tmpProvider))
            (\<lambda>_. Inr (garden_defaultEnvironmentStatus garden)) tmpProvider = Inl e \<longrightarrow>
        ensurePrepared garden task tmpProvider
          = (Inl e, [GetEnvironmentStatus (prov_name tmpProvider)]))
   \<and> (\<forall>status.
        getActionHandler (garden_environmentStatusHandlers garden (prov_name tmpProvider))
          (\<lambda>_. Inr (garden_defaultEnvironmentStatus garden)) tmpProvider = Inr status
        \<and> \<not> rp_forceInit task \<and> ready status \<longrightarrow>
        ensurePrepared garden task tmpProvider
          = (Inr status, [GetEnvironmentStatus (prov_name tmpProvider)]))
   \<and> (\<forall>status.
        getActionHandler (garden_environmentStatusHandlers garden (prov_name tmpProvider))
          (\<lambda>_. Inr (garden_defaultEnvironmentStatus garden)) tmpProvider = Inr status
        \<and> (rp_forceInit task \<or> \<not> ready status) \<longrightarrow>
        (\<forall>e. getActionHandler (garden_prepareEnvironmentHandlers garden (prov_name tmpProvider))
                (\<lambda>_ _ _. Inr \<lparr> per_status = status \<rparr>) tmpProvider (rp_forceInit task) status
              = Inl e \<longrightarrow>
            ensurePrepared garden task tmpProvider
              = (Inl e, [GetEnvironmentStatus (prov_name tmpProvider),
                         PrepareEnvironment (prov_name tmpProvider) (rp_forceInit task)]))
        \<and> (\<forall>result.
              getActionHandler (garden_prepareEnvironmentHandlers garden (prov_name tmpProvider))
                (\<lambda>_ _ _. Inr \<lparr> per_status = status \<rparr>) tmpProvider (rp_forceInit task) status
              = Inr result \<longrightarrow>
            ensurePrepared garden task tmpProvider
              = (if ready (per_status result) then Inr (per_status result)
                 else Inl (PluginError (not_ready_message (prov_name tmpProvider))),
                 [GetEnvironmentStatus (prov_name tmpProvider),
                  PrepareEnvironment (prov_name tmpProvider) (rp_forceInit task)])))
   \<and> ((\<exists>name force. PrepareEnvironment name force \<in> set (snd (ensurePrepared garden task tmpProvider)))
      = (\<exists>status.
           getActionHandler (garden_environmentStatusHandlers garden (prov_name tmpProvider))
             (\<lambda>_. Inr (garden_defaultEnvironmentStatus garden)) tmpProvider = Inr status
           \<and> (rp_forceInit task \<or> \<not> ready status)))
   \<and> (\<forall>status. fst (ensurePrepared garden task tmpProvider) = Inr status \<longrightarrow> ready status)
   \<and> (\<forall>provider calls. process garden task results = Some (Inr provider, calls) \<longrightarrow>
         ready (prov_status provider)
         \<and> (\<exists>tmp calls'. prov_name tmp = prov_name provider
               \<and> prov_config tmp = prov_config provider
               \<and> prov_status tmp = garden_defaultEnvironmentStatus garden
               \<and> ensurePrepared garden task tmp = (Inr (prov_status provider), calls')))"
proof (intro conjI allI impI)
  fix e
  assume "getActionHandler (garden_environmentStatusHandlers garden (prov_name tmpProvider))
            (\<lambda>_. Inr (garden_defaultEnvironmentStatus garden)) tmpProvider = Inl e"
  then show "ensurePrepared garden task tmpProvider
          = (Inl e, [GetEnvironmentStatus (prov_name tmpProvider)])"
    by (simp add: ensurePrepared_def Let_def)
next
  fix status
  assume "getActionHandler (garden_environmentStatusHandlers garden (prov_name tmpProvider))
          (\<lambda>_. Inr (garden_defaultEnvironmentStatus garden)) tmpProvider = Inr status
        \<and> \<not> rp_forceInit task \<and> ready status"
  then show "ensurePrepared garden task tmpProvider
          = (Inr status, [GetEnvironmentStatus (prov_name tmpProvider)])"
    by (simp add: ensurePrepared_def Let_def)
next
  fix status e
  assume "getActionHandler (garden_environmentStatusHandlers garden (prov_name tmpProvider))
          (\<lambda>_. Inr (garden_defaultEnvironmentStatus garden)) tmpProvider = Inr status
        \<and> (rp_forceInit task \<or> \<not> ready status)"
    and "getActionHandler (garden_prepareEnvironmentHandlers garden (prov_name tmpProvider))
                (\<lambda>_ _ _. Inr \<lparr> per_status = status \<rparr>) tmpProvider (rp_forceInit task) status
              = Inl e"
  then show "ensurePrepared garden task tmpProvider
              = (Inl e, [GetEnvironmentStatus (prov_name tmpProvider),
                         PrepareEnvironment (prov_name tmpProvider) (rp_forceInit task)])"
    by (auto simp: ensurePrepared_def Let_def)
next
  fix status result
  assume "getActionHandler (garden_environmentStatusHandlers garden (prov_name tmpProvider))
          (\<lambda>_. Inr (garden_defaultEnvironmentStatus garden)) tmpProvider = Inr status
        \<and> (rp_forceInit task \<or> \<not> ready status)"
    and "getActionHandler (garden_prepareEnvironmentHandlers garden (prov_name tmpProvider))
                (\<lambda>_ _ _. Inr \<lparr> per_status = status \<rparr>) tmpProvider (rp_forceInit task) status
              = Inr result"
  then show "ensurePrepared garden task tmpProvider
              = (if ready (per_status result) then Inr (per_status result)
                 else Inl (PluginError (not_ready_message (prov_name tmpProvider))),
                 [GetEnvironmentStatus (prov_name tmpProvider),
                  PrepareEnvironment (prov_name tmpProvider) (rp_forceInit task)])"
    by (auto simp: ensurePrepared_def Let_def)
next
  show "(\<exists>name force. PrepareEnvironment name force \<in> set (snd (ensurePrepared garden task tmpProvider)))
      = (\<exists>status.
           getActionHandler (garden_environmentStatusHandlers garden (prov_name tmpProvider))
             (\<lambda>_. Inr (garden_defaultEnvironmentStatus garden)) tmpProvider = Inr status
           \<and> (rp_forceInit task \<or> \<not> ready status))"
    by (auto simp: ensurePrepared_def Let_def split: sum.splits if_splits prod.splits)
next
  fix status
  assume "fst (ensurePrepared garden task tmpProvider) = Inr status"
  then show "ready status" by (rule ensurePrepared_Inr_ready)
next
  fix provider calls
  assume "process garden task results = Some (Inr provider, calls)"
  then obtain final providers moduleConfigs status calls2 where
    "ensurePrepared garden task
       (providerFromConfig final providers moduleConfigs (garden_defaultEnvironmentStatus garden))
     = (Inr status, calls2)"
    "provider = providerFromConfig final providers moduleConfigs status"
    by (rule process_Inr)
  then show "ready (prov_status provider)"
    using ensurePrepared_Inr_ready
      [of garden task "providerFromConfig final providers moduleConfigs
         (garden_defaultEnvironmentStatus garden)" status]
    by (simp add: providerFromConfig_def)
next
  fix provider calls
  assume "process garden task results = Some (Inr provider, calls)"
  then obtain final providers moduleConfigs status calls2 where p:
    "ensurePrepared garden task
       (providerFromConfig final providers moduleConfigs (garden_defaultEnvironmentStatus garden))
     = (Inr status, calls2)"
    "provider = providerFromConfig final providers moduleConfigs status"
    by (rule process_Inr)
  show "\<exists>tmp calls'. prov_name tmp = prov_name provider
               \<and> prov_config tmp = prov_config provider
               \<and> prov_status tmp = garden_defaultEnvironmentStatus garden
               \<and> ensurePrepared garden task tmp = (Inr (prov_status provider), calls')"
  proof (intro exI conjI)
    show "ensurePrepared garden task
       (providerFromConfig final providers moduleConfigs (garden_defaultEnvironmentStatus garden))
       = (Inr (prov_status provider), calls2)"
      using p by (simp add: providerFromConfig_def)
  qed (simp_all add: p(2) providerFromConfig_def)
qed

theorem ensurePrepared_prepares_when_needed_witness:
  "ensurePrepared (provider_garden []) (resolve_task test_a) (tmp_provider ''test-a'')
     = (Inr ready_status, [GetEnvironmentStatus ''test-a'', PrepareEnvironment ''test-a'' False])
   \<and> ensurePrepared (provider_garden []) (resolve_task test_b) (tmp_provider ''test-b'')
     = (Inr \<lparr> ready = True, outputs = [] \<rparr>, [GetEnvironmentStatus ''test-b''])
   \<and> ensurePrepared (provider_garden []) (forced_task test_b) (tmp_provider ''test-b'')
     = (Inr \<lparr> ready = True, outputs = [] \<rparr>,
        [GetEnvironmentStatus ''test-b'', PrepareEnvironment ''test-b'' True])
   \<and> ensurePrepared (provider_garden []) (resolve_task test_b) (tmp_provider ''stuck'')
     = (Inl (PluginError (not_ready_message ''stuck'')),
        [GetEnvironmentStatus ''stuck'', PrepareEnvironment ''stuck'' False])
   \<and> ensurePrepared (provider_garden []) (forced_task test_b) (tmp_provider ''broken'')
     = (Inl (RuntimeError ''status unavailable''), [GetEnvironmentStatus ''broken''])
   \<and> process (provider_garden [base_a, test_a, test_b]) (resolve_task test_a) []
     = Some (Inr (Provider ''test-a'' \<lparr> pc_name = ''test-a'', pc_path = Some ''/project'', pc_fields = [] \<rparr>
                    [] [] ready_status),
             [GetEnvironmentStatus ''test-a'', PrepareEnvironment ''test-a'' False])
   \<and> ready ready_status"
proof -
  have handlers:
    "getActionHandler (garden_environmentStatusHandlers (provider_garden ps) ''test-a'') d p
       = Inr not_ready_status"
    "getActionHandler (garden_environmentStatusHandlers (provider_garden ps) ''stuck'') d p
       = Inr not_ready_status"
    "getActionHandler (garden_environmentStatusHandlers (provider_garden ps) ''broken'') d p
       = Inl (RuntimeError ''status unavailable'')"
    "getActionHandler (garden_environmentStatusHandlers (provider_garden ps) ''test-b'') d p = d p"
    "getActionHandler (garden_prepareEnvironmentHandlers (provider_garden ps) ''test-a'') d' p f s
       = Inr \<lparr> per_status = ready_status \<rparr>"
    "getActionHandler (garden_prepareEnvironmentHandlers (provider_garden ps) ''stuck'') d' p f s
       = d' p f s"
    "getActionHandler (garden_prepareEnvironmentHandlers (provider_garden ps) ''test-b'') d' p f s
       = d' p f s"
    "garden_defaultEnvironmentStatus (provider_garden ps) = \<lparr> ready = True, outputs = [] \<rparr>"
    for ps d p d' f s
    by (simp_all add: getActionHandler_def provider_garden_def)
  have vals: "prov_name (tmp_provider n) = n" "rp_forceInit (resolve_task q) = False"
    "rp_forceInit (forced_task q) = True" "ready ready_status" "\<not> ready not_ready_status" for n q
    by (simp_all add: tmp_provider_def providerFromConfig_def make_config_def resolve_task_def
        forced_task_def ready_status_def not_ready_status_def)
  have run: "process (provider_garden [base_a, test_a, test_b]) (resolve_task test_a) []
     = Some (Inr (Provider ''test-a'' \<lparr> pc_name = ''test-a'', pc_path = Some ''/project'', pc_fields = [] \<rparr>
                    [] [] ready_status),
             [GetEnvironmentStatus ''test-a'', PrepareEnvironment ''test-a'' False])"
    by (simp add: process_def provider_garden_def resolve_task_def test_a_def base_a_def test_b_def
        make_plugin_def make_config_def validateConfig_def validateWithPath_def joi_object_def
        omit_path_def configure_def getPluginBases.simps has_base_def keyBy_name_def
        providerFromConfig_def ensurePrepared_def getActionHandler_def not_ready_status_def
        ready_status_def Let_def)
  have a: "ensurePrepared (provider_garden []) (resolve_task test_a) (tmp_provider ''test-a'')
     = (Inr ready_status, [GetEnvironmentStatus ''test-a'', PrepareEnvironment ''test-a'' False])"
    using ensurePrepared_prepares_when_needed [where garden = "provider_garden []"
        and task = "resolve_task test_a" and tmpProvider = "tmp_provider ''test-a''"]
    by (simp add: handlers vals)
  have b: "ensurePrepared (provider_garden []) (resolve_task test_b) (tmp_provider ''test-b'')
     = (Inr \<lparr> ready = True, outputs = [] \<rparr>, [GetEnvironmentStatus ''test-b''])"
    using ensurePrepared_prepares_when_needed [where garden = "provider_garden []"
        and task = "resolve_task test_b" and tmpProvider = "tmp_provider ''test-b''"]
    by (simp add: handlers vals)
  have c: "ensurePrepared (provider_garden []) (forced_task test_b) (tmp_provider ''test-b'')
     = (Inr \<lparr> ready = True, outputs = [] \<rparr>,
        [GetEnvironmentStatus ''test-b'', PrepareEnvironment ''test-b'' True])"
    using ensurePrepared_prepares_when_needed [where garden = "provider_garden []"
        and task = "forced_task test_b" and tmpProvider = "tmp_provider ''test-b''"]
    by (simp add: handlers vals)
  have d: "ensurePrepared (provider_garden []) (resolve_task test_b) (tmp_provider ''stuck'')
     = (Inl (PluginError (not_ready_message ''stuck'')),
        [GetEnvironmentStatus ''stuck'', PrepareEnvironment ''stuck'' False])"
    using ensurePrepared_prepares_when_needed [where garden = "provider_garden []"
        and task = "resolve_task test_b" and tmpProvider = "tmp_provider ''stuck''"]
    by (simp add: handlers vals)
  have e: "ensurePrepared (provider_garden []) (forced_task test_b) (tmp_provider ''broken'')
     = (Inl (RuntimeError ''status unavailable''), [GetEnvironmentStatus ''broken''])"
    using ensurePrepared_prepares_when_needed [where garden = "provider_garden []"
        and task = "forced_task test_b" and tmpProvider = "tmp_provider ''broken''"]
    by (simp add: handlers vals)
  have f: "ready ready_status"
    using ensurePrepared_prepares_when_needed [where garden = "provider_garden [base_a, test_a, test_b]"
        and task = "resolve_task test_a" and results = "[]"] run
    by simp
  from a b c d e f run show ?thesis by simp
qed

text \<open>
  C2 as it is stated fails when \<open>forceInit\<close> is requested and the
  \<open>getEnvironmentStatus\<close> handler throws: \<open>ensurePrepared\<close> throws that error and the
  \<open>prepareEnvironment\<close> handler is not called.
\<close>

theorem ensurePrepared_forceInit_status_throws_counterexample:
  "rp_forceInit (forced_task test_b)
   \<and> ensurePrepared (provider_garden []) (forced_task test_b) (tmp_provider ''broken'')
     = (Inl (RuntimeError ''status unavailable''), [GetEnvironmentStatus ''broken''])"
  by (simp add: ensurePrepared_def getActionHandler_def provider_garden_def forced_task_def
      resolve_task_def tmp_provider_def providerFromConfig_def make_config_def Let_def)

subsection \<open>process\<close>

lemma validateWithPath_Inr: "(validateWithPath sch config kind = Inr v) = (sch config = Inr v)"
  by (simp add: validateWithPath_def split: sum.splits)

lemma validateConfig_Inr:
  "(validateConfig plugin config = Inr v) = (own_schema plugin (omit_path config) = Inr v)"
  by (simp add: validateConfig_def own_schema_def validateWithPath_Inr)

lemma validateBases_in_order:
  "(validateBases bases config = Inr final) = validated_in_order (base_schemas bases) config final"
proof (induction bases arbitrary: config)
  case Nil
  then show ?case by (auto simp: base_schemas_def List.map_filter_simps)
next
  case (Cons b bases)
  show ?case
  proof (cases "configSchema b")
    case None
    with Cons show ?thesis by (simp add: base_schemas_def List.map_filter_simps)
  next
    case (Some s)
    with Cons show ?thesis
      by (auto simp: base_schemas_def List.map_filter_simps validateWithPath_def
          split: sum.splits)
  qed
qed

lemma ensurePrepared_calls:
  "ConfigureProvider n \<notin> set (snd (ensurePrepared garden task tmpProvider))"
  by (auto simp: ensurePrepared_def Let_def split: sum.splits if_splits prod.splits)

lemma configure_Inr:
  assumes "configure garden plugin providerName config providers
             = (Inr (resolvedConfig, moduleConfigs), calls)"
  shows "(configureProvider plugin = None \<and> resolvedConfig = config \<and> moduleConfigs = []
          \<and> calls = [])
       \<or> (\<exists>handler output v.
             configureProvider plugin = Some handler
           \<and> handler config providers = Inr output
           \<and> own_schema plugin (omit_path (cpr_config output)) = Inr v
           \<and> resolvedConfig = v \<lparr> pc_path := Some (garden_projectRoot garden) \<rparr>
           \<and> moduleConfigs = (case cpr_moduleConfigs output of Some m \<Rightarrow> m | None \<Rightarrow> [])
           \<and> calls = [ConfigureProvider providerName])"
  using assms
  by (auto simp: configure_def validateConfig_Inr split: option.splits sum.splits)

text \<open>A schema that only checks: it returns the value it accepts as it is.\<close>

lemma checks_in_order:
  assumes "\<forall>s\<in>set schemas. \<forall>c c'. s c = Inr c' \<longrightarrow> c' = c"
    and "validated_in_order schemas config final"
  shows "(schemas = [] \<and> final = config)
       \<or> (schemas \<noteq> [] \<and> final = omit_path config \<and> (\<forall>s\<in>set schemas. s (omit_path config) = Inr (omit_path config)))"
  using assms
proof (induction schemas arbitrary: config)
  case Nil
  then show ?case by simp
next
  case (Cons s schemas)
  from Cons.prems(2) obtain v where v: "s (omit_path config) = Inr v"
    "validated_in_order schemas v final"
    by (auto split: sum.splits)
  with Cons.prems(1) have veq: "v = omit_path config" by auto
  have idem: "omit_path (omit_path config) = omit_path config"
    by (simp add: omit_path_def)
  from Cons.IH [of v] Cons.prems(1) v(2)
  have "(schemas = [] \<and> final = v)
       \<or> (schemas \<noteq> [] \<and> final = omit_path v \<and> (\<forall>s\<in>set schemas. s (omit_path v) = Inr (omit_path v)))"
    by simp
  with v(1) veq idem show ?case by auto
qed

lemma checks_satisfy:
  assumes bases: "\<forall>s\<in>set schemas. \<forall>c c'. s c = Inr c' \<longrightarrow> c' = c"
    and own: "\<forall>c c'. own c = Inr c' \<longrightarrow> (\<exists>c''. own (omit_path c') = Inr c'')"
    and v: "own input = Inr v"
    and chain: "validated_in_order schemas (v \<lparr> pc_path := root \<rparr>) final"
  shows "\<forall>s\<in>set (own # schemas). satisfies s final"
proof -
  have ov: "omit_path (v \<lparr> pc_path := root \<rparr>) = omit_path v"
    "omit_path (omit_path v) = omit_path v"
    by (simp_all add: omit_path_def)
  from own v obtain c'' where own_v: "own (omit_path v) = Inr c''" by blast
  from checks_in_order [OF bases chain]
  have "(schemas = [] \<and> final = v \<lparr> pc_path := root \<rparr>)
      \<or> (final = omit_path v \<and> (\<forall>s\<in>set schemas. s (omit_path v) = Inr (omit_path v)))"
    by (auto simp: ov)
  with own_v show ?thesis
    by (auto simp: satisfies_def ov)
qed

text \<open>
  C8 (as amended). When \<open>process\<close> returns a provider, the resolved configuration has
  been validated against the plugin's own schema; when the plugin has a
  \<open>configureProvider\<close> handler, that handler has been called with the validated
  configuration and the configuration it returned has been validated against the own
  schema once more; and the result, with the project root as its path, has been
  validated in order against the schema of every plugin of the base chain that declares
  one, each validation taking the output of the one before it without its path. The
  configuration published is the output of the last of these validations. It satisfies
  all of these schemas when every base schema returns the value it accepts unchanged and
  the own schema accepts the values it returns.
\<close>

theorem process_validates_in_order:
  assumes "process garden task results = Some (Inr provider, calls)"
    and "rp_plugin task = Some plugin"
  shows "\<exists>resolved validated input v bases.
      garden_resolveTemplateStrings garden (rp_config task)
        (map (\<lambda>(key, result). map_option tres_output result) results) = Inr resolved
    \<and> own_schema plugin (omit_path resolved) = Inr validated
    \<and> (configureProvider plugin = None \<longrightarrow>
         input = resolved \<and> prov_moduleConfigs provider = []
         \<and> (\<forall>name. ConfigureProvider name \<notin> set calls))
    \<and> (\<forall>handler. configureProvider plugin = Some handler \<longrightarrow>
         (\<exists>output.
            handler (validated \<lparr> pc_path := Some (garden_projectRoot garden) \<rparr>)
              (map (\<lambda>(key, result). map_option tres_output result) results) = Inr output
          \<and> input = cpr_config output
          \<and> prov_moduleConfigs provider
              = (case cpr_moduleConfigs output of Some m \<Rightarrow> m | None \<Rightarrow> [])
          \<and> ConfigureProvider (pc_name resolved) \<in> set calls))
    \<and> own_schema plugin (omit_path input) = Inr v
    \<and> getPluginBases plugin (keyBy_name (garden_getPlugins garden)) = Some (Inr bases)
    \<and> validated_in_order (base_schemas bases)
        (v \<lparr> pc_path := Some (garden_projectRoot garden) \<rparr>) (prov_config provider)
    \<and> ((\<forall>s\<in>set (base_schemas bases). \<forall>c c'. s c = Inr c' \<longrightarrow> c' = c)
        \<and> (\<forall>c c'. own_schema plugin c = Inr c' \<longrightarrow>
              (\<exists>c''. own_schema plugin (omit_path c') = Inr c'')) \<longrightarrow>
        (\<forall>s\<in>set (own_schema plugin # base_schemas bases). satisfies s (prov_config provider)))"
proof -
  let ?root = "garden_projectRoot garden"
  let ?providers = "map (\<lambda>(key, result). map_option tres_output result) results"
  from assms(1) obtain plugin' resolved validated resolvedConfig moduleConfigs calls1 bases final
      status calls2
    where p: "rp_plugin task = Some plugin'"
      "garden_resolveTemplateStrings garden (rp_config task) ?providers = Inr resolved"
      "validateConfig plugin' resolved = Inr validated"
      "configure garden plugin' (pc_name resolved) (validated \<lparr> pc_path := Some ?root \<rparr>) ?providers
         = (Inr (resolvedConfig, moduleConfigs), calls1)"
      "getPluginBases plugin' (keyBy_name (garden_getPlugins garden)) = Some (Inr bases)"
      "validateBases bases resolvedConfig = Inr final"
      "ensurePrepared garden task
         (providerFromConfig final ?providers moduleConfigs (garden_defaultEnvironmentStatus garden))
       = (Inr status, calls2)"
      "provider = providerFromConfig final ?providers moduleConfigs status"
      "calls = calls1 @ calls2"
    by (rule process_Inr)
  from p(1) assms(2) have same: "plugin' = plugin" by simp
  have own: "own_schema plugin (omit_path resolved) = Inr validated"
    using p(3) same by (simp add: validateConfig_Inr)
  have config: "prov_config provider = final" "prov_moduleConfigs provider = moduleConfigs"
    using p(8) by (simp_all add: providerFromConfig_def)
  have calls2: "ConfigureProvider name \<notin> set calls2" for name
    using ensurePrepared_calls [of name garden task
        "providerFromConfig final ?providers moduleConfigs (garden_defaultEnvironmentStatus garden)"]
      p(7) by simp
  from configure_Inr [OF p(4)] own same
  obtain input v where input: "own_schema plugin (omit_path input) = Inr v"
    "resolvedConfig = v \<lparr> pc_path := Some ?root \<rparr>"
    "configureProvider plugin = None \<longrightarrow>
       input = resolved \<and> moduleConfigs = [] \<and> calls1 = []"
    "\<forall>handler. configureProvider plugin = Some handler \<longrightarrow>
       (\<exists>output. handler (validated \<lparr> pc_path := Some ?root \<rparr>) ?providers = Inr output
          \<and> input = cpr_config output
          \<and> moduleConfigs = (case cpr_moduleConfigs output of Some m \<Rightarrow> m | None \<Rightarrow> [])
          \<and> calls1 = [ConfigureProvider (pc_name resolved)])"
    by auto
  have chain: "validated_in_order (base_schemas bases) (v \<lparr> pc_path := Some ?root \<rparr>) final"
    using p(6) input(2) by (simp add: validateBases_in_order)
  show ?thesis
  proof (intro exI conjI)
    show "garden_resolveTemplateStrings garden (rp_config task) ?providers = Inr resolved"
      by (rule p(2))
    show "own_schema plugin (omit_path resolved) = Inr validated"
      by (rule own)
    show "configureProvider plugin = None \<longrightarrow>
         input = resolved \<and> prov_moduleConfigs provider = []
         \<and> (\<forall>name. ConfigureProvider name \<notin> set calls)"
      using input(3) config(2) p(9) calls2 by auto
    show "\<forall>handler. configureProvider plugin = Some handler \<longrightarrow>
         (\<exists>output.
            handler (validated \<lparr> pc_path := Some ?root \<rparr>) ?providers = Inr output
          \<and> input = cpr_config output
          \<and> prov_moduleConfigs provider
              = (case cpr_moduleConfigs output of Some m \<Rightarrow> m | None \<Rightarrow> [])
          \<and> ConfigureProvider (pc_name resolved) \<in> set calls)"
      using input(4) config(2) p(9) by auto
    show "own_schema plugin (omit_path input) = Inr v"
      by (rule input(1))
    show "getPluginBases plugin (keyBy_name (garden_getPlugins garden)) = Some (Inr bases)"
      using p(5) same by simp
    show "validated_in_order (base_schemas bases) (v \<lparr> pc_path := Some ?root \<rparr>)
            (prov_config provider)"
      using chain config by simp
    show "(\<forall>s\<in>set (base_schemas bases). \<forall>c c'. s c = Inr c' \<longrightarrow> c' = c)
        \<and> (\<forall>c c'. own_schema plugin c = Inr c' \<longrightarrow>
              (\<exists>c''. own_schema plugin (omit_path c') = Inr c'')) \<longrightarrow>
        (\<forall>s\<in>set (own_schema plugin # base_schemas bases). satisfies s (prov_config provider))"
      using checks_satisfy [where own = "own_schema plugin" and schemas = "base_schemas bases"
          and input = "omit_path input" and v = v and root = "Some ?root" and final = final]
        input(1) chain config(1)
      by blast
  qed
qed

theorem process_validates_in_order_witness:
  "process (provider_garden [default_base, strict_child]) (resolve_task strict_child) []
     = Some (Inr (Provider ''test''
                    \<lparr> pc_name = ''test'', pc_path = None, pc_fields = [(''foo'', ''bar'')] \<rparr> [] []
                    \<lparr> ready = True, outputs = [] \<rparr>),
             [GetEnvironmentStatus ''test''])
   \<and> validated_in_order [default_foo]
        \<lparr> pc_name = ''test'', pc_path = Some ''/project'', pc_fields = [] \<rparr>
        \<lparr> pc_name = ''test'', pc_path = None, pc_fields = [(''foo'', ''bar'')] \<rparr>
   \<and> process (provider_garden [checked_base, strict_child]) (resolve_task strict_child) []
     = Some (Inr (Provider ''test'' \<lparr> pc_name = ''test'', pc_path = None, pc_fields = [] \<rparr> [] []
                    \<lparr> ready = True, outputs = [] \<rparr>),
             [GetEnvironmentStatus ''test''])
   \<and> satisfies only_name \<lparr> pc_name = ''test'', pc_path = None, pc_fields = [] \<rparr>
   \<and> process (provider_garden [default_base, configuring_child]) (resolve_task configuring_child) []
     = Some (Inr (Provider ''test''
                    \<lparr> pc_name = ''test'', pc_path = None,
                      pc_fields = [(''handled'', ''yes''), (''foo'', ''bar'')] \<rparr> [] []
                    \<lparr> ready = True, outputs = [] \<rparr>),
             [ConfigureProvider ''test'', GetEnvironmentStatus ''test''])
   \<and> add_handled \<lparr> pc_name = ''test'', pc_path = Some ''/project'', pc_fields = [] \<rparr> []
     = Inr \<lparr> cpr_config = \<lparr> pc_name = ''test'', pc_path = Some ''/project'',
                              pc_fields = [(''handled'', ''yes'')] \<rparr>,
             cpr_moduleConfigs = None \<rparr>"
proof -
  let ?garden = "provider_garden [default_base, strict_child]"
  let ?checked = "provider_garden [checked_base, strict_child]"
  let ?handled = "provider_garden [default_base, configuring_child]"
  let ?published = "\<lparr> pc_name = ''test'', pc_path = None, pc_fields = [] \<rparr>"
  have run: "process ?garden (resolve_task strict_child) []
     = Some (Inr (Provider ''test''
                    \<lparr> pc_name = ''test'', pc_path = None, pc_fields = [(''foo'', ''bar'')] \<rparr> [] []
                    \<lparr> ready = True, outputs = [] \<rparr>),
             [GetEnvironmentStatus ''test''])"
    by (simp add: process_def provider_garden_def resolve_task_def strict_child_def default_base_def
        make_plugin_def make_config_def validateConfig_def validateWithPath_def joi_object_def
        omit_path_def configure_def getPluginBases.simps has_base_def keyBy_name_def
        providerFromConfig_def ensurePrepared_def getActionHandler_def only_name_def
        default_foo_def Let_def)
  have run': "process ?checked (resolve_task strict_child) []
     = Some (Inr (Provider ''test'' ?published [] [] \<lparr> ready = True, outputs = [] \<rparr>),
             [GetEnvironmentStatus ''test''])"
    by (simp add: process_def provider_garden_def resolve_task_def strict_child_def checked_base_def
        make_plugin_def make_config_def validateConfig_def validateWithPath_def joi_object_def
        omit_path_def configure_def getPluginBases.simps has_base_def keyBy_name_def
        providerFromConfig_def ensurePrepared_def getActionHandler_def only_name_def Let_def)
  have run'': "process ?handled (resolve_task configuring_child) []
     = Some (Inr (Provider ''test''
                    \<lparr> pc_name = ''test'', pc_path = None,
                      pc_fields = [(''handled'', ''yes''), (''foo'', ''bar'')] \<rparr> [] []
                    \<lparr> ready = True, outputs = [] \<rparr>),
             [ConfigureProvider ''test'', GetEnvironmentStatus ''test''])"
    by (simp add: process_def provider_garden_def resolve_task_def configuring_child_def
        default_base_def add_handled_def
        make_plugin_def make_config_def validateConfig_def validateWithPath_def joi_object_def
        omit_path_def configure_def getPluginBases.simps has_base_def keyBy_name_def
        providerFromConfig_def ensurePrepared_def getActionHandler_def default_foo_def Let_def)
  have plugin: "rp_plugin (resolve_task p) = Some p" for p
    by (simp add: resolve_task_def)
  have chain: "validated_in_order [default_foo]
        \<lparr> pc_name = ''test'', pc_path = Some ''/project'', pc_fields = [] \<rparr>
        \<lparr> pc_name = ''test'', pc_path = None, pc_fields = [(''foo'', ''bar'')] \<rparr>"
    by (simp add: default_foo_def omit_path_def)
  have bases: "getPluginBases strict_child (keyBy_name (garden_getPlugins ?checked))
      = Some (Inr [checked_base])"
    by (simp add: getPluginBases.simps has_base_def keyBy_name_def provider_garden_def
        strict_child_def checked_base_def make_plugin_def)
  have schemas: "own_schema strict_child = only_name" "base_schemas [checked_base] = [only_name]"
    by (simp_all add: own_schema_def base_schemas_def List.map_filter_simps strict_child_def
        checked_base_def make_plugin_def)
  have checks: "\<forall>c c'. only_name c = Inr c' \<longrightarrow> c' = c"
    by (simp add: only_name_def)
  have again: "\<forall>c c'. only_name c = Inr c' \<longrightarrow> (\<exists>c''. only_name (omit_path c') = Inr c'')"
    by (simp add: only_name_def omit_path_def)
  from process_validates_in_order [OF run' plugin] bases schemas checks again
  have sat: "satisfies only_name ?published"
    by auto
  have handler: "configureProvider configuring_child = Some add_handled"
    by (simp add: configuring_child_def make_plugin_def)
  have validated: "own_schema configuring_child c = Inr c" for c
    by (simp add: own_schema_def configuring_child_def make_plugin_def joi_object_def)
  have resolved: "garden_resolveTemplateStrings ?handled (rp_config (resolve_task configuring_child)) []
      = Inr \<lparr> pc_name = ''test'', pc_path = None, pc_fields = [] \<rparr>"
    by (simp add: provider_garden_def resolve_task_def configuring_child_def make_plugin_def
        make_config_def)
  from process_validates_in_order [OF run'' plugin] handler validated resolved
  have out: "add_handled \<lparr> pc_name = ''test'', pc_path = Some ''/project'', pc_fields = [] \<rparr> []
     = Inr \<lparr> cpr_config = \<lparr> pc_name = ''test'', pc_path = Some ''/project'',
                              pc_fields = [(''handled'', ''yes'')] \<rparr>,
             cpr_moduleConfigs = None \<rparr>"
    by (simp add: add_handled_def)
  with run run' run'' chain sat show ?thesis
    using process_validates_in_order [OF run plugin]
    by simp
qed

text \<open>
  C8 as it is stated fails where a schema changes the value it validates. The plugin
  \<open>test\<close> allows no key but the name and its base fills in a default for \<open>foo\<close>:
  \<open>process\<close> publishes the output of the base's validation, with the key \<open>foo\<close>, which
  the plugin's own schema rejects.
\<close>

theorem process_config_violates_own_schema_counterexample:
  "process (provider_garden [default_base, strict_child]) (resolve_task strict_child) []
     = Some (Inr (Provider ''test''
                    \<lparr> pc_name = ''test'', pc_path = None, pc_fields = [(''foo'', ''bar'')] \<rparr> [] []
                    \<lparr> ready = True, outputs = [] \<rparr>),
             [GetEnvironmentStatus ''test''])
   \<and> configSchema strict_child = Some only_name
   \<and> \<not> satisfies only_name \<lparr> pc_name = ''test'', pc_path = None, pc_fields = [(''foo'', ''bar'')] \<rparr>"
  by (simp add: process_def provider_garden_def resolve_task_def strict_child_def default_base_def
      make_plugin_def make_config_def validateConfig_def validateWithPath_def joi_object_def
      omit_path_def configure_def getPluginBases.simps has_base_def keyBy_name_def
      providerFromConfig_def
      ensurePrepared_def getActionHandler_def only_name_def default_foo_def Let_def satisfies_def)

end
